theory Spec2Isabelle
  imports Complex_Main "HOL-Library.Sublist" "HOL-Library.Char_ord" "HOL-Library.List_Lexorder"
begin

section \<open>check\_cisco\_uc\_perf: a shallow embedding\<close>

text \<open>
  The plugin is one Go file in two successive variants (version 0.3, where everything
  happens in \<open>main\<close>, and version 0.8, where the probe of one node is
  \<open>queryHost\<close>). The functions \<open>isFullQualified\<close>,
  \<open>getNagiosReturnVal\<close>, \<open>generateAlert\<close> and \<open>returnValText\<close>
  are the same text in both variants. Go strings are byte sequences and so are HOL strings.
\<close>

subsection \<open>The pieces of Go's \<open>strings\<close>, \<open>regexp\<close> and \<open>html\<close> packages that the code calls\<close>

definition backslash :: char where
  "backslash = CHR 0x5C"

definition newline :: char where
  "newline = CHR 0x0A"

text \<open>\<open>strings.Split(s, sep)\<close> for a separator of one byte: the pieces between the
  separators, one piece (the empty one) for the empty string.\<close>

fun Split :: "string \<Rightarrow> char \<Rightarrow> string list" where
  "Split [] sep = [[]]"
| "Split (c # cs) sep =
     (if c = sep then [] # Split cs sep
      else (case Split cs sep of
              [] \<Rightarrow> [[c]]
            | r # rs \<Rightarrow> (c # r) # rs))"

definition HasPrefix :: "string \<Rightarrow> string \<Rightarrow> bool" where
  "HasPrefix s p = prefix p s"

definition HasSuffix :: "string \<Rightarrow> string \<Rightarrow> bool" where
  "HasSuffix s p = suffix p s"

definition TrimPrefix :: "string \<Rightarrow> string \<Rightarrow> string" where
  "TrimPrefix s p = (if HasPrefix s p then drop (length p) s else s)"

text \<open>\<open>strings.Replace(s, old, new, -1)\<close> for an \<open>old\<close> of one byte (the
  code replaces \<open>" "\<close>, \<open>"%"\<close> and \<open>"\\"\<close>): every occurrence, left to
  right.\<close>

fun Replace :: "string \<Rightarrow> char \<Rightarrow> string \<Rightarrow> string" where
  "Replace [] old new = []"
| "Replace (c # cs) old new =
     (if c = old then new @ Replace cs old new else c # Replace cs old new)"

text \<open>\<open>html.EscapeString\<close> replaces exactly the five bytes
  \<open>&\<close>, \<open>'\<close>, \<open><\<close>, \<open>>\<close> and \<open>"\<close>.\<close>

definition escapeChar :: "char \<Rightarrow> string" where
  "escapeChar c =
     (if c = CHR ''&'' then ''&amp;''
      else if c = CHR 0x27 then ''&#39;''
      else if c = CHR ''<'' then ''&lt;''
      else if c = CHR ''>'' then ''&gt;''
      else if c = CHR 0x22 then ''&#34;''
      else [c])"

definition EscapeString :: "string \<Rightarrow> string" where
  "EscapeString s = concat (map escapeChar s)"

text \<open>The character class \<open>[0-9.]\<close>.\<close>

definition numChar :: "char \<Rightarrow> bool" where
  "numChar c = (c \<in> set ''0123456789.'')"

text \<open>\<open>regexp.MatchString(`^[0-9.]+:[0-9.]+`, s)\<close>: anchored at the start only. The
  colon is not in the class, so the first run of class characters is the longest one, it
  must be non-empty and followed by a colon and one more class character.\<close>

definition matchRange :: "string \<Rightarrow> bool" where
  "matchRange s =
     (takeWhile numChar s \<noteq> [] \<and>
      (case dropWhile numChar s of
         c # d # _ \<Rightarrow> c = CHR '':'' \<and> numChar d
       | _ \<Rightarrow> False))"

subsection \<open>Floating-point values\<close>

text \<open>
  A \<open>float64\<close> is a real number, an infinity or NaN. Comparison of two finite values is
  comparison of the reals they stand for, so the finite values are embedded as reals (every
  float64 is one; the theorems below hold for every real, hence for every float64). A
  comparison with NaN is false, as in Go.
\<close>

datatype float64 = NaN | NegInf | Fin real | PosInf

fun flt :: "float64 \<Rightarrow> float64 \<Rightarrow> bool" where
  "flt NaN _ = False"
| "flt _ NaN = False"
| "flt _ NegInf = False"
| "flt NegInf _ = True"
| "flt PosInf _ = False"
| "flt (Fin x) (Fin y) = (x < y)"
| "flt (Fin x) PosInf = True"

fun fle :: "float64 \<Rightarrow> float64 \<Rightarrow> bool" where
  "fle NaN _ = False"
| "fle _ NaN = False"
| "fle NegInf _ = True"
| "fle _ PosInf = True"
| "fle PosInf _ = False"
| "fle (Fin x) (Fin y) = (x \<le> y)"
| "fle (Fin x) NegInf = False"

definition fgt :: "float64 \<Rightarrow> float64 \<Rightarrow> bool" where
  "fgt a b = flt b a"

definition fge :: "float64 \<Rightarrow> float64 \<Rightarrow> bool" where
  "fge a b = fle b a"

text \<open>
  \<open>strconv.ParseFloat(s, 64)\<close> returns a value and an error. It belongs to Go's library,
  not to this repository, so the functions that call it take it as the parameter
  \<open>pf\<close>: the value and whether an error was returned. Go documents two errors: with
  a syntax error the value is 0 (\<open>syntaxZero\<close>), with a range error it is the infinity
  of the sign of the text (\<open>rangeInf\<close>).
\<close>

type_synonym parser = "string \<Rightarrow> float64 \<times> bool"



text \<open>
  For closed examples: \<open>ParseFloat\<close> on plain decimal literals (an optional sign,
  digits, at most one dot, at least one digit). Go returns the float64 nearest to the number
  written, and an infinity with a range error when that is not finite, which is the case
  from \<open>2^1024 - 2^970\<close> on (half a step above the largest float64). Below that bound
  the stand-in returns the number written, which is Go's answer for the literals of the
  examples (they are float64 values); every other string is answered as a syntax error with
  value 0. (Go also reads exponents, hexadecimal floats, \<open>inf\<close> and \<open>nan\<close>; no
  example below uses them, and the general theorems are about every \<open>pf\<close>.)
\<close>

definition isDigit :: "char \<Rightarrow> bool" where
  "isDigit c = (c \<in> set ''0123456789'')"

text \<open>The value of a digit is its place in the row of digits.\<close>

definition digitVal :: "char \<Rightarrow> real" where
  "digitVal c = real (length (takeWhile (\<lambda>d. d \<noteq> c) ''0123456789''))"

text \<open>The value of the digits before the dot, and of the digits after it.\<close>

definition integerPart :: "string \<Rightarrow> real" where
  "integerPart ds = foldl (\<lambda>acc c. 10 * acc + digitVal c) 0 ds"

definition fractionPart :: "string \<Rightarrow> real" where
  "fractionPart ds = foldr (\<lambda>c acc. (digitVal c + acc) / 10) ds 0"

definition unsignedDecimal :: "string \<Rightarrow> real option" where
  "unsignedDecimal s =
     (let ip = takeWhile isDigit s;
          rest = dropWhile isDigit s;
          fp = (case rest of [] \<Rightarrow> [] | _ # t \<Rightarrow> t)
      in if (rest = [] \<or> hd rest = CHR ''.'') \<and> list_all isDigit fp \<and> ip @ fp \<noteq> []
         then Some (integerPart ip + fractionPart fp)
         else None)"

text \<open>The bound \<open>2^1024 - 2^970\<close>, written out.\<close>

definition overflowBound :: real where
  "overflowBound =
     179769313486231580793728971405303415079934132710037826936173778980444968292764750946649017977587207096330286416692887910946555547851940402630657488671505820681908902000708383676273854845817711531764475730270069855571366959622842914819860834936475292719074168444365510704342711559699508093042880177904174497792"

definition ParseFloat :: parser where
  "ParseFloat s =
     (let (neg, body) =
            (case s of
               [] \<Rightarrow> (False, [])
             | c # cs \<Rightarrow> if c = CHR ''-'' then (True, cs)
                         else if c = CHR ''+'' then (False, cs) else (False, s))
      in case unsignedDecimal body of
           None \<Rightarrow> (Fin 0, True)
         | Some x \<Rightarrow>
             if overflowBound \<le> x then (if neg then NegInf else PosInf, True)
             else (Fin (if neg then - x else x), False))"

subsection \<open>Threshold ranges\<close>

text \<open>Indexing a slice panics when the index is out of range; \<open>None\<close> is the panic.\<close>

definition index :: "'a list \<Rightarrow> nat \<Rightarrow> 'a option" where
  "index xs i = (if i < length xs then Some (xs ! i) else None)"

text \<open>\<open>generateAlert\<close>: the \<open>switch\<close> takes the first case that holds; the errors of
  \<open>ParseFloat\<close> are discarded (\<open>_\<close>). The result \<open>None\<close> stands for a run-time
  panic of \<open>r[0]\<close> or \<open>r[1]\<close>.\<close>

definition generateAlert :: "parser \<Rightarrow> float64 \<Rightarrow> string \<Rightarrow> bool option" where
  "generateAlert pf val thresholdRange =
     (let r = Split thresholdRange CHR '':'';
          matched = matchRange thresholdRange
      in if length r = 1 then
           (let float64_threshold = fst (pf thresholdRange)
            in Some (flt val (Fin 0) \<or> fgt val float64_threshold))
         else if HasSuffix thresholdRange '':'' then
           (case index r 0 of
              None \<Rightarrow> None
            | Some r0 \<Rightarrow>
                (let float64_threshold = fst (pf r0)
                 in Some (flt val float64_threshold)))
         else if HasPrefix thresholdRange ''~'' then
           (case index r 1 of
              None \<Rightarrow> None
            | Some r1 \<Rightarrow>
                (let float64_threshold = fst (pf r1)
                 in Some (fgt val float64_threshold)))
         else if matched then
           (case (index r 0, index r 1) of
              (Some r0, Some r1) \<Rightarrow>
                (let float64_threshold1 = fst (pf r0);
                     float64_threshold2 = fst (pf r1)
                 in Some (flt val float64_threshold1 \<or> fgt val float64_threshold2))
            | _ \<Rightarrow> None)
         else if HasPrefix thresholdRange ''@'' then
           (case (index r 0, index r 1) of
              (Some r0, Some r1) \<Rightarrow>
                (let float64_threshold1 = fst (pf (TrimPrefix r0 ''@''));
                     float64_threshold2 = fst (pf r1)
                 in Some (fge val float64_threshold1 \<and> fle val float64_threshold2))
            | _ \<Rightarrow> None)
         else Some True)"

text \<open>\<open>getNagiosReturnVal\<close>: two assignments in a row, the later one wins. A panic of
  \<open>generateAlert\<close> would end the run.\<close>

definition getNagiosReturnVal :: "parser \<Rightarrow> float64 \<Rightarrow> string \<Rightarrow> string \<Rightarrow> int option" where
  "getNagiosReturnVal pf val warningThresholdRange criticalThresholdRange =
     (case generateAlert pf val warningThresholdRange of
        None \<Rightarrow> None
      | Some warn \<Rightarrow>
          (let r = (if warn then 1 else 0)
           in case generateAlert pf val criticalThresholdRange of
                None \<Rightarrow> None
              | Some crit \<Rightarrow> Some (if crit then 2 else r)))"

definition returnValText :: "int \<Rightarrow> string" where
  "returnValText returnVal =
     (if returnVal = 0 then ''OK''
      else if returnVal = 1 then ''WARNING''
      else if returnVal = 2 then ''CRITICAL''
      else if returnVal = 3 then ''UNKNOWN''
      else '''')"

text \<open>\<open>isFullQualified\<close>: the pattern is \<open>^\\\\.*\\.*\\.*\<close>, that is two backslashes at
  the start and two more backslashes after them; \<open>.\<close> does not match a newline, so the two
  must stand before the first newline. The pattern is a constant that compiles, so the
  branch on a compile error is never taken.\<close>

definition isFullQualified :: "string \<Rightarrow> bool" where
  "isFullQualified counterName =
     (case counterName of
        a # b # rest \<Rightarrow>
          a = backslash \<and> b = backslash \<and>
          2 \<le> length (filter (\<lambda>c. c = backslash) (takeWhile (\<lambda>c. c \<noteq> newline) rest))
      | _ \<Rightarrow> False)"

subsection \<open>Snapshots, the cache directory, the remote service\<close>

text \<open>
  Of a decoded \<open>CounterEnvelope\<close> the program reads the list
  \<open>Body.PerfmonCollectCounterDataResponse.ArrayOfCounterInfo.ArrayOfCounterInfo\<close> and of
  each element \<open>Name.Text\<close>, \<open>Value.Text\<close> and \<open>CStatus.Text\<close>; the wrapper attributes
  are never read. A \<open>ListCounterEnvelope\<close> is the list of objects with their counters.
\<close>

record CounterInfo =
  Name :: string
  Value :: string
  CStatus :: string

type_synonym CounterEnvelope = "CounterInfo list"

record ObjectInfo =
  ObjectName :: string
  MultiInstance :: string
  ArrayOfCounter :: "string list"

type_synonym ListCounterEnvelope = "ObjectInfo list"

text \<open>One HTTPS exchange and the XML decoding of its answer: the request fails, or the
  answer does not decode, or it decodes.\<close>

datatype 'a exchange = HttpError | XmlError | Decoded 'a

text \<open>
  What the run takes from outside: the user id, Go's \<open>strconv.ParseFloat\<close>,
  \<open>json.Marshal\<close> and \<open>json.Unmarshal\<close> on envelopes, whether \<open>ioutil.WriteFile\<close> succeeds
  on a path, the two remote operations (by server, node and object), the name of the
  executable and whether the log file opens.
\<close>

record env =
  uid :: nat
  strconvParseFloat :: parser
  jsonMarshal :: "CounterEnvelope \<Rightarrow> string option"
  jsonUnmarshal :: "string \<Rightarrow> CounterEnvelope option"
  writeFileOK :: "string \<Rightarrow> bool"
  perfmonCollectCounterData :: "string \<Rightarrow> string \<Rightarrow> string \<Rightarrow> CounterEnvelope exchange"
  perfmonListCounter :: "string \<Rightarrow> string \<Rightarrow> ListCounterEnvelope exchange"
  progName :: string
  logFileOK :: bool

text \<open>A file of the cache directory: modification time in seconds, content, and whether
  this user may read it. \<open>ioutil.WriteFile\<close> creates a missing file (readable by its
  creator) and keeps the permissions of an existing one.\<close>

record cacheFile =
  mtime :: int
  content :: string
  readable :: bool

text \<open>A write to standard output is a line printed with \<open>fmt.Printf\<close> (kept without
  its newline) or a message of the standard logger, which \<open>log.Printf\<close> writes with the
  date and the time in front. Of a logger message the model keeps the format string, that
  is the text without the time stamp and without the values formatted into it, except for
  the one message the properties below speak about (counter not found), which is kept with
  its values.\<close>

datatype entry = Printed string | Logged string

text \<open>Where the standard logger writes: standard error when the process starts, and
  what \<open>log.SetOutput\<close> was last called with after that (standard output in version 0.8,
  the log file in version 0.3).\<close>

datatype logOutput = ToStderr | ToStdout | ToLogfile

text \<open>The state a run changes: the files of the cache, the clock
  (\<open>time.Now().Unix()\<close>), the writes to standard output in their order, the messages the
  logger wrote to standard error and to the log file, and the output of the logger.\<close>

record world =
  files :: "string \<Rightarrow> cacheFile option"
  now :: int
  stdout :: "entry list"
  stderr :: "string list"
  logfile :: "string list"
  logOutput :: logOutput

text \<open>The command-line flags (global variables of the program). User name, password, API
  version and log file name only reach the transport and the logger.\<close>

record flags =
  ipAddr :: string
  nodeIpAddr :: string
  nodesIpAddrs :: string
  objectInstance :: string
  counterName :: string
  debug :: int
  warningThreshold :: string
  criticalThreshold :: string
  showVersion :: bool
  showCounters :: bool
  maxCacheAge :: int
  cacheFilePath :: string

definition outputPrefix :: string where
  "outputPrefix = ''UC Perfmon''"

definition version :: string where
  "version = ''0.8''"

definition chacheFilePrefix :: string where
  "chacheFilePrefix = ''check_cisco_uc_perf_''"

text \<open>\<open>log.Printf\<close> writes to the output of the logger.\<close>

definition logPrintf :: "string \<Rightarrow> world \<Rightarrow> world" where
  "logPrintf msg w =
     (case logOutput w of
        ToStderr \<Rightarrow> w\<lparr>stderr := stderr w @ [msg]\<rparr>
      | ToStdout \<Rightarrow> w\<lparr>stdout := stdout w @ [Logged msg]\<rparr>
      | ToLogfile \<Rightarrow> w\<lparr>logfile := logfile w @ [msg]\<rparr>)"

text \<open>\<open>debugPrintf\<close>: a message of level 1 is logged whatever the debug level is.\<close>

definition debugPrintf :: "flags \<Rightarrow> int \<Rightarrow> string \<Rightarrow> world \<Rightarrow> world" where
  "debugPrintf fl level msg w =
     (if level = 1 \<or> level \<le> debug fl then logPrintf msg w else w)"

text \<open>Several log lines of one level in a row.\<close>

definition debugLines :: "flags \<Rightarrow> int \<Rightarrow> string list \<Rightarrow> world \<Rightarrow> world" where
  "debugLines fl level msgs w = foldl (\<lambda>w' msg. debugPrintf fl level msg w') w msgs"

definition printLine :: "string \<Rightarrow> world \<Rightarrow> world" where
  "printLine line w = w\<lparr>stdout := stdout w @ [Printed line]\<rparr>"

text \<open>\<open>%d\<close> of a number that is not negative.\<close>

function Itoa :: "nat \<Rightarrow> string" where
  "Itoa n = (if n < 10 then [''0123456789'' ! n]
             else Itoa (n div 10) @ [''0123456789'' ! (n mod 10)])"
  by pat_completeness auto
termination
  by (relation "measure id") auto

subsection \<open>The cache: \<open>saveStruct\<close> and \<open>loadStruct\<close> (version 0.8)\<close>

text \<open>Each of the two functions builds the file name by its own two lines; they are kept
  apart here as well.\<close>

definition saveStruct_filename :: "env \<Rightarrow> flags \<Rightarrow> string \<Rightarrow> string \<Rightarrow> string" where
  "saveStruct_filename e fl ipAddr' object =
     (let objectUnderscore = Replace object CHR '' '' ''_''
      in cacheFilePath fl @ chacheFilePrefix @ Itoa (uid e) @ ''_'' @ ipAddr' @ ''_'' @ objectUnderscore)"

definition loadStruct_filename :: "env \<Rightarrow> flags \<Rightarrow> string \<Rightarrow> string \<Rightarrow> string" where
  "loadStruct_filename e fl ipAddr' object =
     (let objectUnderscore = Replace object CHR '' '' ''_''
      in cacheFilePath fl @ chacheFilePrefix @ Itoa (uid e) @ ''_'' @ ipAddr' @ ''_'' @ objectUnderscore)"

definition saveStruct ::
  "env \<Rightarrow> flags \<Rightarrow> string \<Rightarrow> string \<Rightarrow> CounterEnvelope \<Rightarrow> world \<Rightarrow> bool \<times> world" where
  "saveStruct e fl ipAddr' object envelope w =
     (case jsonMarshal e envelope of
        None \<Rightarrow> (False, debugPrintf fl 1 ''error: %s'' w)
      | Some itemJson \<Rightarrow>
          (let filename = saveStruct_filename e fl ipAddr' object
           in if writeFileOK e filename
              then (True, w\<lparr>files := (files w)(filename \<mapsto>
                      \<lparr>mtime = now w, content = itemJson,
                       readable = (case files w filename of
                                     None \<Rightarrow> True
                                   | Some old \<Rightarrow> readable old)\<rparr>)\<rparr>)
              else (False, debugPrintf fl 1 ''error: %s'' w)))"

text \<open>\<open>loadStruct\<close> returns whether it loaded and fills the envelope of its caller; the
  caller reads that envelope only after \<open>true\<close>, so the model returns the envelope
  (\<open>None\<close> for \<open>false\<close>).\<close>

definition loadStruct ::
  "env \<Rightarrow> flags \<Rightarrow> string \<Rightarrow> string \<Rightarrow> int \<Rightarrow> world \<Rightarrow> CounterEnvelope option \<times> world" where
  "loadStruct e fl ipAddr' object ageInSeconds w =
     (let filename = loadStruct_filename e fl ipAddr' object
      in case files w filename of
           None \<Rightarrow> (None, w)
         | Some fs \<Rightarrow>
             (let w1 = debugPrintf fl 3 ''Filename: %s Diff: %d'' w
              in if now w - mtime fs > ageInSeconds then (None, w1)
                 else if \<not> readable fs then (None, debugPrintf fl 1 ''error: %s'' w1)
                 else (case jsonUnmarshal e (content fs) of
                         None \<Rightarrow> (None, debugPrintf fl 1 ''error: %s'' w1)
                       | Some envelope \<Rightarrow> (Some envelope, w1))))"

subsection \<open>The probe of one node: \<open>queryHost\<close> (version 0.8)\<close>

text \<open>How a call ends: \<open>os.Exit\<close> with a code, a run-time panic, or a normal return.\<close>

datatype outcome = Exited int | Panicked | Returned

text \<open>The process status: a \<open>main\<close> that returns ends the process with status 0, a panic
  of the Go run time with status 2.\<close>

fun exitStatus :: "outcome \<Rightarrow> int" where
  "exitStatus (Exited c) = c"
| "exitStatus Panicked = 2"
| "exitStatus Returned = 0"

text \<open>\<open>fmt.Sprintf("\\\\%s\\%s\\%s", nodeIpAddr, objectInstance, counterName)\<close> and the test
  before it, as in the second half of \<open>queryHost\<close>; the first half builds the name it
  logs in the same way from \<open>object\<close>.\<close>

definition fullCounterName :: "string \<Rightarrow> string \<Rightarrow> string \<Rightarrow> string" where
  "fullCounterName nodeIpAddr' objectInstance' counterName' =
     (if isFullQualified counterName' then counterName'
      else [backslash, backslash] @ nodeIpAddr' @ [backslash] @ objectInstance' @ [backslash]
           @ counterName')"

text \<open>The status line of a counter that was found: \<open>Sprintf\<close>, then the three
  replacements in the order of the code.\<close>

definition nagiosOutput :: "flags \<Rightarrow> string \<Rightarrow> string \<Rightarrow> string \<Rightarrow> string \<Rightarrow> string" where
  "nagiosOutput fl statusStr objectInstance' counterName' val =
     (let line = statusStr @ '' - '' @ outputPrefix @ '','' @ objectInstance' @ '','' @ counterName'
                 @ ''='' @ val @ ''|'' @ counterName' @ ''='' @ val @ '';'' @ warningThreshold fl
                 @ '';'' @ criticalThreshold fl @ '';;'';
          line = EscapeString line;
          line = Replace line CHR ''%'' ''Percent'';
          line = Replace line backslash [backslash, backslash]
      in line)"

text \<open>The second half of \<open>queryHost\<close>, from \<open>if len(counterName) > 0\<close>. The loop over the
  samples leaves the process at the first sample whose name is the full counter name, so it
  is \<open>find\<close>; the code after the loop runs when there is no such sample.\<close>

definition counterLookup ::
  "env \<Rightarrow> flags \<Rightarrow> bool \<Rightarrow> string \<Rightarrow> string \<Rightarrow> string \<Rightarrow> CounterEnvelope \<Rightarrow> world
   \<Rightarrow> outcome \<times> world" where
  "counterLookup e fl multipeNodes nodeIpAddr' counterName' objectInstance' counterEnvelope w =
     (if length counterName' > 0 then
        (let full = fullCounterName nodeIpAddr' objectInstance' counterName';
             w1 = debugPrintf fl 3 ''fullCounterName: >>%s<<'' w;
             w2 = debugPrintf fl 3 ''envelope.Body.perfmonCollectCounterDataResponse: %+v'' w1
         in case find (\<lambda>v. Name v = full) counterEnvelope of
              Some v \<Rightarrow>
                (case strconvParseFloat e (Value v) of
                   (val, err) \<Rightarrow>
                     if err then
                       (Exited 3,
                        debugPrintf fl 1 ''Counter value string to float64 convert error: %s'' w2)
                     else
                       (case getNagiosReturnVal (strconvParseFloat e) val
                               (warningThreshold fl) (criticalThreshold fl) of
                          None \<Rightarrow> (Panicked, w2)
                        | Some returnVal \<Rightarrow>
                            (let w3 = debugPrintf fl 3 ''returnVal: %d'' w2;
                                 statusStr = returnValText returnVal
                             in (Exited returnVal,
                                 printLine (nagiosOutput fl statusStr objectInstance' counterName'
                                              (Value v)) w3))))
            | None \<Rightarrow>
                (let returnVal = 3;
                     statusStr = returnValText returnVal
                 in if multipeNodes
                    then (Returned,
                          debugPrintf fl 3 (statusStr @ '' - Counter not found: '' @ full) w2)
                    else (Exited returnVal,
                          printLine (statusStr @ '' - Counter not found: '' @ full) w2)))
      else (Returned, w))"

text \<open>The lines of list mode: the number of objects, then each object with its counters.\<close>

definition listLines :: "ListCounterEnvelope \<Rightarrow> string list" where
  "listLines l =
     (Itoa (length l) @ '' items'') #
     concat (map (\<lambda>v. ObjectName v # map (\<lambda>c. CHR 0x09 # c) (ArrayOfCounter v)) l)"

text \<open>The block \<open>if !usePersistData || showCounters\<close> of \<open>queryHost\<close>: one exchange.
  It leaves the process (on a failure, and always in list mode) or yields the decoded
  envelope, which it has tried to save; the result of \<open>saveStruct\<close> is not looked at.\<close>

definition remoteFetch ::
  "env \<Rightarrow> flags \<Rightarrow> string \<Rightarrow> string \<Rightarrow> string \<Rightarrow> world
   \<Rightarrow> (outcome \<times> world) + (CounterEnvelope \<times> world)" where
  "remoteFetch e fl ipAddr' nodeIpAddr' object w =
     (let w1 = debugLines fl 3
                 [''XML SOAP request: %s'', ''URL: %s'', ''username: %s, password: %s''] w
      in if showCounters fl then
           (case perfmonListCounter e ipAddr' nodeIpAddr' of
              HttpError \<Rightarrow> Inl (Exited 3, debugPrintf fl 1 ''HTTPS request error: %s %#v'' w1)
            | XmlError \<Rightarrow>
                Inl (Exited 3,
                     debugPrintf fl 1 ''ListCounterEnvelope XML unmarshal error: %s''
                       (debugPrintf fl 3 ''XML SOAP response: %s'' w1))
            | Decoded listCounterEnvelope \<Rightarrow>
                (let w2 = debugLines fl 3
                            [''XML SOAP response: %s'', ''PerfmonListCounterData: %+v''] w1
                 in Inl (Exited 0,
                        w2\<lparr>stdout := stdout w2 @ map Printed (listLines listCounterEnvelope)\<rparr>)))
         else
           (case perfmonCollectCounterData e ipAddr' nodeIpAddr' object of
              HttpError \<Rightarrow> Inl (Exited 3, debugPrintf fl 1 ''HTTPS request error: %s %#v'' w1)
            | XmlError \<Rightarrow>
                Inl (Exited 3,
                     debugPrintf fl 1 ''XML unmarshal error: %s''
                       (debugPrintf fl 3 ''XML SOAP response: %s'' w1))
            | Decoded counterEnvelope \<Rightarrow>
                Inr (counterEnvelope,
                     snd (saveStruct e fl nodeIpAddr' object counterEnvelope
                            (debugPrintf fl 3 ''XML SOAP response: %s'' w1)))))"

text \<open>\<open>queryHost\<close>. \<open>counterEnvelope\<close> starts as the empty envelope of
  \<open>new(CounterEnvelope)\<close> and is what \<open>loadStruct\<close> loaded when it succeeded. The global
  \<open>usePersistData\<close> is assigned in both branches after \<open>loadStruct\<close> before it is read,
  so it is a local value here; \<open>multipeNodes\<close> is the global that \<open>main\<close> sets. On a cache
  hit the code builds a counter name from \<open>object\<close> and logs the samples of that name.\<close>

definition queryHost ::
  "env \<Rightarrow> flags \<Rightarrow> bool \<Rightarrow> string \<Rightarrow> string \<Rightarrow> string \<Rightarrow> string \<Rightarrow> string \<Rightarrow> world
   \<Rightarrow> outcome \<times> world" where
  "queryHost e fl multipeNodes ipAddr' nodeIpAddr' object counterName' objectInstance' w =
     (let w0 = debugLines fl 3
                 [''queryHost CUCM IP address: %s Node IP address: %s'',
                  ''queryHost perfmon object: %s Counter name: %s'',
                  ''queryHost counter instance name: %s max cache age: %d''] w;
          (loaded, w1) = loadStruct e fl nodeIpAddr' object (maxCacheAge fl) w0;
          counterEnvelope = (case loaded of None \<Rightarrow> [] | Some cached \<Rightarrow> cached);
          usePersistData = (loaded \<noteq> None);
          w2 = (if \<not> usePersistData
                then debugPrintf fl 3 ''No persistence file found or persistence file too old'' w1
                else debugLines fl 3
                       (map (\<lambda>v. ''Name: %s Value: %s'')
                          (filter (\<lambda>v. Name v = fullCounterName nodeIpAddr' object counterName')
                             counterEnvelope))
                       (debugPrintf fl 3 ''Persistence file found: %+v'' w1));
          w3 = debugPrintf fl 3 ''use persistence: %v'' w2
      in if \<not> usePersistData \<or> showCounters fl then
           (case remoteFetch e fl ipAddr' nodeIpAddr' object w3 of
              Inl left \<Rightarrow> left
            | Inr (counterEnvelope, w4) \<Rightarrow>
                counterLookup e fl multipeNodes nodeIpAddr' counterName' objectInstance'
                  counterEnvelope w4)
         else counterLookup e fl multipeNodes nodeIpAddr' counterName' objectInstance'
                counterEnvelope w3)"

subsection \<open>\<open>main\<close> (version 0.8)\<close>

text \<open>The loop over the nodes: the next node is probed only when \<open>queryHost\<close> returned.
  \<open>main\<close> calls \<open>log.SetOutput(os.Stdout)\<close> before it probes a node, so every message
  that \<open>queryHost\<close> and the cache functions log is written to standard output; the
  message about the log file comes before that call.\<close>

fun queryNodes ::
  "env \<Rightarrow> flags \<Rightarrow> string \<Rightarrow> string list \<Rightarrow> world \<Rightarrow> outcome \<times> world" where
  "queryNodes e fl object [] w = (Returned, w)"
| "queryNodes e fl object (node # nodes) w =
     (case queryHost e fl True (ipAddr fl) node object (counterName fl) (objectInstance fl) w of
        (Returned, w') \<Rightarrow> queryNodes e fl object nodes w'
      | (out, w') \<Rightarrow> (out, w'))"

definition main :: "env \<Rightarrow> flags \<Rightarrow> world \<Rightarrow> outcome \<times> world" where
  "main e fl w =
     (if \<not> logFileOK e then (Exited 3, debugPrintf fl 1 ''Can't open log file: %s'' w)
      else if showVersion fl
        then (Exited 0, printLine (progName e @ '' version: '' @ version) w)
      else
        (let w0 = w\<lparr>logOutput := ToStdout\<rparr>;
             object = takeWhile (\<lambda>c. c \<noteq> CHR ''('') (objectInstance fl);
             nodes = Split (nodesIpAddrs fl) CHR '','';
             multipeNodes = (length nodes > 1);
             w1 = (if multipeNodes then debugPrintf fl 3 ''multiple nodes: %v'' w0 else w0);
             w2 = debugPrintf fl 3 ''use multipe nodes: %v'' w1
         in if multipeNodes then queryNodes e fl object nodes w2
            else queryHost e fl False (ipAddr fl) (nodeIpAddr fl) object (counterName fl)
                   (objectInstance fl) w2))"

subsection \<open>The end of \<open>main\<close> in version 0.3\<close>

text \<open>
  Version 0.3 has no \<open>queryHost\<close>: its \<open>main\<close> does for the one node what
  \<open>queryHost\<close> does, and ends with the statement modelled here, which has an \<open>else\<close>
  branch that version 0.8 dropped. Its envelope holds two pointers,
  \<open>envelope.Soap\<close> and \<open>envelope.Soap.PerfmonCollectCounterData\<close>; \<open>None\<close> stands for an
  envelope in which one of them is nil, where ranging over
  \<open>envelope.Soap.PerfmonCollectCounterData.Item\<close> panics, and \<open>Some items\<close> for one with
  these items. The prefix of the status line is \<open>CUCM Perfmon\<close> there and the not-found
  line is always printed. Before it gets here this \<open>main\<close> has called
  \<open>log.SetOutput(logfile)\<close>, so it runs in a world whose \<open>logOutput\<close> is
  \<open>ToLogfile\<close>.
\<close>

definition outputPrefix03 :: string where
  "outputPrefix03 = ''CUCM Perfmon''"

definition listSnapshot :: "CounterEnvelope \<Rightarrow> string list" where
  "listSnapshot items =
     (let max_len = foldl (\<lambda>m v. if length (Name v) > m then length (Name v) else m) 0 items
      in map (\<lambda>v. (let space = replicate (max_len + 3 - length (Name v)) CHR '' ''
                    in ''Name: '' @ Name v @ space @ ''Value: '' @ Value v)) items)"

definition main03_report ::
  "env \<Rightarrow> flags \<Rightarrow> CounterEnvelope option \<Rightarrow> world \<Rightarrow> outcome \<times> world" where
  "main03_report e fl envelope w =
     (if length (counterName fl) > 0 then
        (let full = fullCounterName (nodeIpAddr fl) (objectInstance fl) (counterName fl);
             w1 = debugPrintf fl 3 ''fullCounterName: >>%s<<'' w
         in case envelope of
              None \<Rightarrow> (Panicked, w1)
            | Some items \<Rightarrow>
                (case find (\<lambda>v. Name v = full) items of
                   Some v \<Rightarrow>
                     (case strconvParseFloat e (Value v) of
                        (val, err) \<Rightarrow>
                          if err then
                            (Exited 3,
                             debugPrintf fl 1
                               ''Counter value string to float64 convert error: %s'' w1)
                          else
                            (case getNagiosReturnVal (strconvParseFloat e) val
                                    (warningThreshold fl) (criticalThreshold fl) of
                               None \<Rightarrow> (Panicked, w1)
                             | Some returnVal \<Rightarrow>
                                 (let w2 = debugPrintf fl 3 ''returnVal: %d'' w1;
                                      statusStr = returnValText returnVal;
                                      line = statusStr @ '' - '' @ outputPrefix03 @ '',''
                                        @ objectInstance fl @ '','' @ counterName fl @ ''=''
                                        @ Value v @ ''|'' @ counterName fl @ ''='' @ Value v
                                        @ '';'' @ warningThreshold fl @ '';''
                                        @ criticalThreshold fl @ '';;'';
                                      line = EscapeString line;
                                      line = Replace line CHR ''%'' ''Percent'';
                                      line = Replace line backslash [backslash, backslash]
                                  in (Exited returnVal, printLine line w2))))
                 | None \<Rightarrow>
                     (let returnVal = 3;
                          statusStr = returnValText returnVal
                      in (Exited returnVal,
                          printLine (statusStr @ '' - Counter not found: '' @ full) w1))))
      else
        (case envelope of
           None \<Rightarrow> (Panicked, w)
         | Some items \<Rightarrow>
             (Returned, w\<lparr>stdout := stdout w @ map Printed (listSnapshot items)\<rparr>)))"

subsection \<open>Notions used in the statements\<close>



text \<open>The lines printed with \<open>fmt.Printf\<close> among the writes to standard output.\<close>

fun printed :: "entry list \<Rightarrow> string list" where
  "printed [] = []"
| "printed (Printed line # ws) = line # printed ws"
| "printed (Logged msg # ws) = printed ws"

text \<open>From \<open>w\<close> to \<open>w'\<close> standard output has grown by messages of the logger only,
  and below debug level 3 by no other message than the error message of the cache functions
  (the only messages of level 1 on a path that does not leave the process at once).\<close>

definition loggerOnly :: "flags \<Rightarrow> world \<Rightarrow> world \<Rightarrow> bool" where
  "loggerOnly fl w w' =
     (\<exists>logs. stdout w' = stdout w @ map Logged logs
             \<and> (debug fl < 3 \<longrightarrow> set logs \<subseteq> {''error: %s''}))"

text \<open>The snapshot a probe that is not in list mode works on: the cached one on a hit,
  else the fetched one.\<close>

definition probeSnapshot ::
  "env \<Rightarrow> flags \<Rightarrow> string \<Rightarrow> string \<Rightarrow> string \<Rightarrow> world \<Rightarrow> CounterEnvelope option" where
  "probeSnapshot e fl ipAddr' nodeIpAddr' object w =
     (case fst (loadStruct e fl nodeIpAddr' object (maxCacheAge fl) w) of
        Some counterEnvelope \<Rightarrow> Some counterEnvelope
      | None \<Rightarrow>
          (case perfmonCollectCounterData e ipAddr' nodeIpAddr' object of
             Decoded counterEnvelope \<Rightarrow> Some counterEnvelope
           | _ \<Rightarrow> None))"

text \<open>A probe during which the logger is silent: the debug level is below 3 and no
  cache function logs an error, because the snapshot \<open>ce\<close> is the cached one, or because
  the cache file is missing or too old and the fetched snapshot \<open>ce\<close> is saved.\<close>

definition quietProbe ::
  "env \<Rightarrow> flags \<Rightarrow> string \<Rightarrow> string \<Rightarrow> CounterEnvelope \<Rightarrow> world \<Rightarrow> bool" where
  "quietProbe e fl nodeIpAddr' object ce w =
     (debug fl < 3 \<and>
      (fst (loadStruct e fl nodeIpAddr' object (maxCacheAge fl) w) = Some ce \<or>
       ((case files w (loadStruct_filename e fl nodeIpAddr' object) of
           None \<Rightarrow> True
         | Some fs \<Rightarrow> now w - mtime fs > maxCacheAge fl) \<and>
        fst (saveStruct e fl nodeIpAddr' object ce w))))"

text \<open>The three replacements of the status line, byte by byte.\<close>

definition sanitizeChar :: "char \<Rightarrow> string" where
  "sanitizeChar c =
     (if c = CHR ''%'' then ''Percent''
      else if c = backslash then [backslash, backslash]
      else escapeChar c)"

definition sanitize :: "string \<Rightarrow> string" where
  "sanitize s = concat (map sanitizeChar s)"

text \<open>Two object names that differ only by spaces versus underscores: the same length,
  and at each position the same byte or a space against an underscore.\<close>

definition spaceOrUnderscore :: "char \<Rightarrow> bool" where
  "spaceOrUnderscore c = (c = CHR '' '' \<or> c = CHR ''_'')"

definition sameUpToSpaces :: "string \<Rightarrow> string \<Rightarrow> bool" where
  "sameUpToSpaces a b =
     list_all2 (\<lambda>x y. x = y \<or> (spaceOrUnderscore x \<and> spaceOrUnderscore y)) a b"

subsection \<open>A sample installation for the closed examples\<close>

text \<open>A line-based stand-in for the JSON codec (three lines per sample); it returns what
  it was given when no field holds a newline.\<close>

definition sampleMarshal :: "CounterEnvelope \<Rightarrow> string option" where
  "sampleMarshal l =
     Some (concat (map (\<lambda>v. Name v @ [newline] @ Value v @ [newline] @ CStatus v @ [newline]) l))"

fun sampleRecords :: "string list \<Rightarrow> CounterEnvelope option" where
  "sampleRecords (a # b # c # rest) =
     (case sampleRecords rest of
        None \<Rightarrow> None
      | Some l \<Rightarrow> Some (\<lparr>Name = a, Value = b, CStatus = c\<rparr> # l))"
| "sampleRecords [x] = (if x = [] then Some [] else None)"
| "sampleRecords _ = None"

definition sampleUnmarshal :: "string \<Rightarrow> CounterEnvelope option" where
  "sampleUnmarshal s = sampleRecords (Split s newline)"

definition sampleSnapshot :: "string \<Rightarrow> string \<Rightarrow> CounterEnvelope" where
  "sampleSnapshot node val =
     [\<lparr>Name = [backslash, backslash] @ node @ [backslash] @ ''Memory'' @ [backslash] @ ''UsedMB'',
       Value = val, CStatus = ''0''\<rparr>]"

text \<open>Node 10.0.0.1 reports 512 used megabytes, node 10.0.0.2 reports 900, no other node
  answers.\<close>

definition sampleEnv :: env where
  "sampleEnv =
     \<lparr>uid = 1000,
      strconvParseFloat = ParseFloat,
      jsonMarshal = sampleMarshal,
      jsonUnmarshal = sampleUnmarshal,
      writeFileOK = (\<lambda>_. True),
      perfmonCollectCounterData =
        (\<lambda>server node object.
           if node = ''10.0.0.1'' then Decoded (sampleSnapshot node ''512'')
           else if node = ''10.0.0.2'' then Decoded (sampleSnapshot node ''900'')
           else HttpError),
      perfmonListCounter = (\<lambda>server node. HttpError),
      progName = ''check_cisco_uc_perf'',
      logFileOK = True\<rparr>"

definition sampleFlags :: flags where
  "sampleFlags =
     \<lparr>ipAddr = ''10.0.0.10'', nodeIpAddr = ''10.0.0.1'', nodesIpAddrs = [],
      objectInstance = ''Memory'', counterName = ''UsedMB'', debug = 0,
      warningThreshold = ''600'', criticalThreshold = ''800'',
      showVersion = False, showCounters = False, maxCacheAge = 180,
      cacheFilePath = ''/tmp/check_cisco_uc_perf/''\<rparr>"

definition sampleWorld :: world where
  "sampleWorld =
     \<lparr>files = (\<lambda>_. None), now = 1700000000, stdout = [], stderr = [], logfile = [],
      logOutput = ToStderr\<rparr>"

text \<open>A snapshot whose samples are not in the order of their names.\<close>

definition unsortedSnapshot :: CounterEnvelope where
  "unsortedSnapshot =
     [\<lparr>Name = ''b'', Value = ''2'', CStatus = ''0''\<rparr>,
      \<lparr>Name = ''aaa'', Value = ''1'', CStatus = ''0''\<rparr>]"


section \<open>Properties\<close>

subsection \<open>Splitting and matching\<close>

lemma Split_not_Nil: "Split s sep \<noteq> []"
  by (induction s) (auto split: list.splits)

lemma Split_no_sep: "sep \<notin> set s \<Longrightarrow> Split s sep = [s]"
  by (induction s) auto


lemma Split_append_sep: "sep \<notin> set a \<Longrightarrow> Split (a @ sep # b) sep = a # Split b sep"
  by (induction a) auto

lemma HasSuffix_colon: "HasSuffix s '':'' = (s \<noteq> [] \<and> last s = CHR '':'')"
  unfolding HasSuffix_def by (cases s rule: rev_cases) (auto simp: suffix_def)

lemma numChar_colon: "\<not> numChar CHR '':''"
  by (simp add: numChar_def)

lemma matchRange_append:
  assumes "list_all numChar n"
  shows "matchRange (n @ CHR '':'' # m) = (n \<noteq> [] \<and> m \<noteq> [] \<and> numChar (hd m))"
proof -
  have tw: "takeWhile numChar (n @ CHR '':'' # m) = n"
    using assms by (induction n) (auto simp: numChar_colon)
  have dw: "dropWhile numChar (n @ CHR '':'' # m) = CHR '':'' # m"
    using assms by (induction n) (auto simp: numChar_colon)
  show ?thesis unfolding matchRange_def tw dw by (cases m) simp_all
qed

lemma matchRange_not_all:
  assumes "CHR '':'' \<notin> set n" "\<not> list_all numChar n"
  shows "\<not> matchRange (n @ CHR '':'' # m)"
proof -
  from assms(2) have "\<exists>x\<in>set n. \<not> numChar x" by (simp add: list_all_iff)
  from split_list_first_prop[OF this]
  obtain a x b where n: "n = a @ x # b" and x: "\<not> numChar x"
    and a': "\<forall>y\<in>set a. \<not> \<not> numChar y"
    by blast
  have a: "list_all numChar a" using a' by (simp add: list_all_iff)
  have xc: "x \<noteq> CHR '':''" using assms(1) n by auto
  have tw: "dropWhile numChar (n @ CHR '':'' # m) = x # b @ CHR '':'' # m"
    unfolding n using a x by (induction a) auto
  show ?thesis unfolding matchRange_def tw using xc by (simp split: list.splits)
qed

lemma last_no_colon: "CHR '':'' \<notin> set m \<Longrightarrow> m \<noteq> [] \<Longrightarrow> last m \<noteq> CHR '':''"
  by (metis last_in_set)

subsection \<open>\<open>generateAlert\<close> on strings with no colon and with one colon\<close>

lemma generateAlert_total: "generateAlert pf v s \<noteq> None"
proof -
  have ne: "Split s CHR '':'' \<noteq> []" by (rule Split_not_Nil)
  show ?thesis
  proof (cases "length (Split s CHR '':'') = 1")
    case True
    then show ?thesis by (simp add: generateAlert_def Let_def)
  next
    case False
    with ne have "2 \<le> length (Split s CHR '':'')"
      by (cases "Split s CHR '':''") (auto simp: Suc_le_eq)
    then have "index (Split s CHR '':'') 0 \<noteq> None" "index (Split s CHR '':'') 1 \<noteq> None"
      by (auto simp: index_def)
    then show ?thesis using False
      by (auto simp: generateAlert_def Let_def split: option.splits)
  qed
qed


lemma generateAlert_two_parts:
  assumes "CHR '':'' \<notin> set a" "CHR '':'' \<notin> set b"
  shows "generateAlert pf v (a @ CHR '':'' # b) =
         Some (if b = [] then flt v (fst (pf a))
               else if HasPrefix a ''~'' then fgt v (fst (pf b))
               else if a \<noteq> [] \<and> list_all numChar a \<and> numChar (hd b)
                 then flt v (fst (pf a)) \<or> fgt v (fst (pf b))
               else if HasPrefix a ''@''
                 then fge v (fst (pf (TrimPrefix a ''@''))) \<and> fle v (fst (pf b))
               else True)"
proof -
  let ?s = "a @ CHR '':'' # b"
  have sp: "Split ?s CHR '':'' = [a, b]"
    using Split_append_sep[OF assms(1), of b] Split_no_sep[OF assms(2)] by simp
  have suf: "HasSuffix ?s '':'' = (b = [])"
    using last_no_colon[OF assms(2)] by (auto simp: HasSuffix_colon)
  have pre: "HasPrefix ?s [c] = HasPrefix a [c]" if "c \<noteq> CHR '':''" for c
    using that by (cases a) (auto simp: HasPrefix_def)
  have mr: "matchRange ?s = (a \<noteq> [] \<and> list_all numChar a \<and> b \<noteq> [] \<and> numChar (hd b))"
  proof (cases "list_all numChar a")
    case True
    then show ?thesis using matchRange_append[of a b] by simp
  next
    case False
    then show ?thesis using matchRange_not_all[OF assms(1), of b] by simp
  qed
  have i0: "index [a, b] 0 = Some a" and i1: "index [a, b] 1 = Some b"
    by (simp_all add: index_def)
  show ?thesis
    unfolding generateAlert_def Let_def sp suf mr pre[of "CHR ''~''", simplified]
      pre[of "CHR ''@''", simplified] i0 i1
    by simp
qed


text \<open>The examples of the specification: the range \<open>10:20\<close> alerts at 9.999 and at
  20.0001 and not at 10 or 20; the inverted range \<open>@10:20\<close> alerts at 15 and not at 25.\<close>

lemma generateAlert_examples:
  "generateAlert ParseFloat (Fin (9999 / 1000)) ''10:20'' = Some True"
  "generateAlert ParseFloat (Fin (200001 / 10000)) ''10:20'' = Some True"
  "generateAlert ParseFloat (Fin 10) ''10:20'' = Some False"
  "generateAlert ParseFloat (Fin 20) ''10:20'' = Some False"
  "generateAlert ParseFloat (Fin 15) ''@10:20'' = Some True"
  "generateAlert ParseFloat (Fin 25) ''@10:20'' = Some False"
  by code_simp+

text \<open>The stand-in for \<open>ParseFloat\<close> on a number that is out of range: 309 nines.\<close>

lemma overflowBound_value: "overflowBound = 2 ^ 1024 - 2 ^ 970"
  unfolding overflowBound_def by simp





subsection \<open>The cache and the log\<close>

lemma logPrintf_fields [simp]:
  "files (logPrintf msg w) = files w"
  "now (logPrintf msg w) = now w"
  "logOutput (logPrintf msg w) = logOutput w"
  by (simp_all add: logPrintf_def split: logOutput.splits)

lemma debugPrintf_fields [simp]:
  "files (debugPrintf fl l msg w) = files w"
  "now (debugPrintf fl l msg w) = now w"
  "logOutput (debugPrintf fl l msg w) = logOutput w"
  by (simp_all add: debugPrintf_def)

lemma debugLines_fields [simp]:
  "files (debugLines fl l msgs w) = files w"
  "now (debugLines fl l msgs w) = now w"
  "logOutput (debugLines fl l msgs w) = logOutput w"
  unfolding debugLines_def by (induction msgs arbitrary: w) simp_all

text \<open>Below debug level 3 a message of level 3 is not logged.\<close>

lemma debugPrintf_quiet [simp]: "debug fl < 3 \<Longrightarrow> debugPrintf fl 3 msg w = w"
  by (simp add: debugPrintf_def)

lemma debugLines_quiet [simp]: "debug fl < 3 \<Longrightarrow> debugLines fl 3 msgs w = w"
  unfolding debugLines_def by (induction msgs arbitrary: w) simp_all

text \<open>What the logger adds to standard output.\<close>

lemma logPrintf_stdout:
  "stdout (logPrintf msg w) = stdout w @ (if logOutput w = ToStdout then [Logged msg] else [])"
  by (simp add: logPrintf_def split: logOutput.splits)

lemma loggerOnly_refl [simp]: "loggerOnly fl w w"
  unfolding loggerOnly_def by (rule exI[of _ "[]"]) simp

lemma loggerOnly_trans: "loggerOnly fl w w1 \<Longrightarrow> loggerOnly fl w1 w2 \<Longrightarrow> loggerOnly fl w w2"
proof -
  assume "loggerOnly fl w w1" "loggerOnly fl w1 w2"
  then obtain a b where a: "stdout w1 = stdout w @ map Logged a"
      "debug fl < 3 \<longrightarrow> set a \<subseteq> {''error: %s''}"
    and b: "stdout w2 = stdout w1 @ map Logged b"
      "debug fl < 3 \<longrightarrow> set b \<subseteq> {''error: %s''}"
    unfolding loggerOnly_def by blast
  have "stdout w2 = stdout w @ map Logged (a @ b)" using a(1) b(1) by simp
  moreover have "debug fl < 3 \<longrightarrow> set (a @ b) \<subseteq> {''error: %s''}" using a(2) b(2) by simp
  ultimately show ?thesis unfolding loggerOnly_def by blast
qed

lemma loggerOnly_stdout_eq: "stdout w' = stdout w \<Longrightarrow> loggerOnly fl w w'"
  unfolding loggerOnly_def by (rule exI[of _ "[]"]) simp

lemma loggerOnly_cong: "stdout w1 = stdout w \<Longrightarrow> loggerOnly fl w1 w' \<Longrightarrow> loggerOnly fl w w'"
  unfolding loggerOnly_def by simp

lemma loggerOnly_printed: "loggerOnly fl w w' \<Longrightarrow> printed (stdout w') = printed (stdout w)"
proof -
  have p: "printed (xs @ map Logged logs) = printed xs" for xs logs
  proof (induction xs rule: printed.induct)
    case 1
    show ?case by (induction logs) simp_all
  qed simp_all
  assume "loggerOnly fl w w'"
  then show ?thesis unfolding loggerOnly_def using p by auto
qed

lemma loggerOnly_logPrintf:
  "3 \<le> debug fl \<or> msg = ''error: %s'' \<Longrightarrow> loggerOnly fl w (logPrintf msg w)"
  unfolding loggerOnly_def
  by (rule exI[of _ "if logOutput w = ToStdout then [msg] else []"])
    (auto simp: logPrintf_stdout)

lemma loggerOnly_debugPrintf3 [simp]: "loggerOnly fl w (debugPrintf fl 3 msg w)"
  using loggerOnly_logPrintf[of fl msg w] by (simp add: debugPrintf_def)

lemma loggerOnly_error [simp]: "loggerOnly fl w (debugPrintf fl 1 ''error: %s'' w)"
  using loggerOnly_logPrintf[of fl "''error: %s''" w] by (simp add: debugPrintf_def)

lemma loggerOnly_debugLines3 [simp]: "loggerOnly fl w (debugLines fl 3 msgs w)"
proof -
  have "loggerOnly fl w (foldl (\<lambda>w' msg. debugPrintf fl 3 msg w') w1 msgs)"
    if "loggerOnly fl w w1" for w1
    using that
  proof (induction msgs arbitrary: w1)
    case Nil
    then show ?case by simp
  next
    case (Cons m ms)
    have "loggerOnly fl w (debugPrintf fl 3 m w1)"
      using loggerOnly_trans[OF Cons.prems loggerOnly_debugPrintf3] .
    then show ?case using Cons.IH by simp
  qed
  then show ?thesis unfolding debugLines_def by simp
qed

lemma filename_same: "saveStruct_filename e fl node obj = loadStruct_filename e fl node obj"
  by (simp add: saveStruct_filename_def loadStruct_filename_def)

lemma loadStruct_fst:
  "fst (loadStruct e fl node obj age w) =
     (case files w (loadStruct_filename e fl node obj) of
        None \<Rightarrow> None
      | Some fs \<Rightarrow>
          if now w - mtime fs > age then None
          else if \<not> readable fs then None
          else jsonUnmarshal e (content fs))"
  by (simp add: loadStruct_def Let_def split: option.splits)

lemma loadStruct_fields [simp]:
  "files (snd (loadStruct e fl node obj age w)) = files w"
  "now (snd (loadStruct e fl node obj age w)) = now w"
  "logOutput (snd (loadStruct e fl node obj age w)) = logOutput w"
  by (simp_all add: loadStruct_def Let_def split: option.splits)

lemma loggerOnly_loadStruct [simp]: "loggerOnly fl w (snd (loadStruct e fl node obj age w))"
proof -
  have "loggerOnly fl w (debugPrintf fl 1 ''error: %s'' (debugPrintf fl 3 msg w))" for msg
    using loggerOnly_trans[OF loggerOnly_debugPrintf3 loggerOnly_error] .
  then show ?thesis by (simp add: loadStruct_def Let_def split: option.splits)
qed

lemma loggerOnly_saveStruct [simp]: "loggerOnly fl w (snd (saveStruct e fl node obj ce w))"
  by (simp add: saveStruct_def Let_def loggerOnly_stdout_eq split: option.splits)

lemma saveStruct_logOutput [simp]:
  "logOutput (snd (saveStruct e fl node obj ce w)) = logOutput w"
  by (simp add: saveStruct_def Let_def split: option.splits)

text \<open>A load that succeeds logs nothing below debug level 3.\<close>

lemma loadStruct_hit_quiet:
  "debug fl < 3 \<Longrightarrow> fst (loadStruct e fl node obj age w) = Some ce \<Longrightarrow>
   snd (loadStruct e fl node obj age w) = w"
  by (auto simp: loadStruct_def Let_def split: option.splits if_splits)

lemma loadStruct_debugPrintf [simp]:
  "fst (loadStruct e fl node obj age (debugPrintf fl' l msg w)) = fst (loadStruct e fl node obj age w)"
  by (simp add: loadStruct_fst split: option.splits)

lemma loadStruct_debugLines [simp]:
  "fst (loadStruct e fl node obj age (debugLines fl' l msgs w)) = fst (loadStruct e fl node obj age w)"
  by (simp add: loadStruct_fst split: option.splits)

lemma saveStruct_True:
  assumes "saveStruct e fl node obj ce w = (True, w')"
  shows "\<exists>j. jsonMarshal e ce = Some j \<and>
             files w' (saveStruct_filename e fl node obj) =
               Some \<lparr>mtime = now w, content = j,
                     readable = (case files w (saveStruct_filename e fl node obj) of
                                   None \<Rightarrow> True | Some old \<Rightarrow> readable old)\<rparr>"
  using assms by (auto simp: saveStruct_def Let_def split: option.splits if_splits)

lemma load_after_save:
  assumes save: "saveStruct e fl node obj ce w = (True, w')"
    and rt: "\<forall>j. jsonMarshal e ce = Some j \<longrightarrow> jsonUnmarshal e j = Some ce"
    and rd: "\<forall>old. files w (saveStruct_filename e fl node obj) = Some old \<longrightarrow> readable old"
    and age: "t - now w \<le> age"
  shows "fst (loadStruct e fl node obj age (w'\<lparr>now := t\<rparr>)) = Some ce"
proof -
  from saveStruct_True[OF save] obtain j where j: "jsonMarshal e ce = Some j"
    and f: "files w' (saveStruct_filename e fl node obj) =
               Some \<lparr>mtime = now w, content = j,
                     readable = (case files w (saveStruct_filename e fl node obj) of
                                   None \<Rightarrow> True | Some old \<Rightarrow> readable old)\<rparr>"
    by blast
  have r: "(case files w (saveStruct_filename e fl node obj) of
             None \<Rightarrow> True | Some old \<Rightarrow> readable old)"
    using rd by (auto split: option.splits)
  have u: "jsonUnmarshal e j = Some ce" using rt j by blast
  show ?thesis
    using f r u age by (simp add: loadStruct_fst filename_same[symmetric])
qed

lemma sample_roundtrip:
  "sampleUnmarshal (the (sampleMarshal (sampleSnapshot ''10.0.0.1'' ''512''))) = Some (sampleSnapshot ''10.0.0.1'' ''512'')"
  by code_simp

lemma sample_save_ok:
  "fst (saveStruct sampleEnv sampleFlags ''10.0.0.1'' ''Memory'' (sampleSnapshot ''10.0.0.1'' ''512'') sampleWorld)"
  by code_simp

lemma saveStruct_now [simp]: "now (snd (saveStruct e fl node obj ce w)) = now w"
  by (simp add: saveStruct_def Let_def split: option.splits)

lemma Replace_sameUpToSpaces:
  "sameUpToSpaces a b \<Longrightarrow> Replace a CHR '' '' ''_'' = Replace b CHR '' '' ''_''"
  unfolding sameUpToSpaces_def
  by (induction a b rule: list_all2_induct) (auto simp: spaceOrUnderscore_def)

subsection \<open>The two halves of \<open>queryHost\<close>\<close>

lemma printLine_fields [simp]:
  "stdout (printLine l w) = stdout w @ [Printed l]"
  "files (printLine l w) = files w"
  "now (printLine l w) = now w"
  "logOutput (printLine l w) = logOutput w"
  by (simp_all add: printLine_def)

lemma remoteFetch_Decoded:
  assumes "\<not> showCounters fl" "perfmonCollectCounterData e ip node obj = Decoded ce"
  shows "\<exists>w'. remoteFetch e fl ip node obj w = Inr (ce, w') \<and> loggerOnly fl w w'
              \<and> logOutput w' = logOutput w"
proof -
  let ?w1 = "debugLines fl 3
               [''XML SOAP request: %s'', ''URL: %s'', ''username: %s, password: %s''] w"
  let ?w2 = "debugPrintf fl 3 ''XML SOAP response: %s'' ?w1"
  let ?w3 = "snd (saveStruct e fl node obj ce ?w2)"
  have "loggerOnly fl w ?w2"
    using loggerOnly_trans[OF loggerOnly_debugLines3 loggerOnly_debugPrintf3] .
  then have "loggerOnly fl w ?w3"
    using loggerOnly_trans[OF _ loggerOnly_saveStruct] by blast
  moreover have "remoteFetch e fl ip node obj w = Inr (ce, ?w3)"
    using assms by (simp add: remoteFetch_def Let_def)
  moreover have "logOutput ?w3 = logOutput w" by simp
  ultimately show ?thesis by blast
qed



text \<open>A probe that is not in list mode and has a snapshot looks the counter up in it.\<close>

lemma queryHost_lookup:
  assumes "\<not> showCounters fl" "probeSnapshot e fl ip node obj w = Some ce"
  shows "\<exists>w'. queryHost e fl multi ip node obj cn oi w = counterLookup e fl multi node cn oi ce w'
              \<and> loggerOnly fl w w' \<and> logOutput w' = logOutput w"
proof (cases "fst (loadStruct e fl node obj (maxCacheAge fl) w)")
  case None
  from None assms(2) have d: "perfmonCollectCounterData e ip node obj = Decoded ce"
    by (auto simp: probeSnapshot_def split: exchange.splits)
  let ?w0 = "debugLines fl 3
               [''queryHost CUCM IP address: %s Node IP address: %s'',
                ''queryHost perfmon object: %s Counter name: %s'',
                ''queryHost counter instance name: %s max cache age: %d''] w"
  let ?w1 = "snd (loadStruct e fl node obj (maxCacheAge fl) ?w0)"
  let ?w2 = "debugPrintf fl 3 ''No persistence file found or persistence file too old'' ?w1"
  let ?w3 = "debugPrintf fl 3 ''use persistence: %v'' ?w2"
  have l1: "loggerOnly fl w ?w1"
    using loggerOnly_trans[OF loggerOnly_debugLines3 loggerOnly_loadStruct] .
  have l2: "loggerOnly fl w ?w2"
    using loggerOnly_trans[OF l1 loggerOnly_debugPrintf3] .
  have l3: "loggerOnly fl w ?w3"
    using loggerOnly_trans[OF l2 loggerOnly_debugPrintf3] .
  from remoteFetch_Decoded[OF assms(1) d, of ?w3] obtain w4 where
    w4: "remoteFetch e fl ip node obj ?w3 = Inr (ce, w4)" "loggerOnly fl ?w3 w4"
      "logOutput w4 = logOutput ?w3" by blast
  have "queryHost e fl multi ip node obj cn oi w = counterLookup e fl multi node cn oi ce w4"
    unfolding queryHost_def Let_def split_def using None w4(1) by simp
  moreover have "loggerOnly fl w w4" using loggerOnly_trans[OF l3 w4(2)] .
  moreover have "logOutput w4 = logOutput w" using w4(3) by simp
  ultimately show ?thesis by blast
next
  case (Some ce')
  from Some assms(2) have c: "ce' = ce" by (simp add: probeSnapshot_def)
  let ?w0 = "debugLines fl 3
               [''queryHost CUCM IP address: %s Node IP address: %s'',
                ''queryHost perfmon object: %s Counter name: %s'',
                ''queryHost counter instance name: %s max cache age: %d''] w"
  let ?w1 = "snd (loadStruct e fl node obj (maxCacheAge fl) ?w0)"
  let ?w2 = "debugLines fl 3
               (map (\<lambda>v. ''Name: %s Value: %s'')
                  (filter (\<lambda>v. Name v = fullCounterName node obj cn) ce))
               (debugPrintf fl 3 ''Persistence file found: %+v'' ?w1)"
  let ?w3 = "debugPrintf fl 3 ''use persistence: %v'' ?w2"
  have l1: "loggerOnly fl w ?w1"
    using loggerOnly_trans[OF loggerOnly_debugLines3 loggerOnly_loadStruct] .
  have l2: "loggerOnly fl w ?w2"
    using loggerOnly_trans[OF loggerOnly_trans[OF l1 loggerOnly_debugPrintf3]
        loggerOnly_debugLines3] .
  have l3: "loggerOnly fl w ?w3"
    using loggerOnly_trans[OF l2 loggerOnly_debugPrintf3] .
  have "queryHost e fl multi ip node obj cn oi w = counterLookup e fl multi node cn oi ce ?w3"
    unfolding queryHost_def Let_def split_def using assms(1) Some c by simp
  moreover have "logOutput ?w3 = logOutput w" by simp
  ultimately show ?thesis using l3 by blast
qed

text \<open>On a cache hit below debug level 3 nothing is logged before the lookup.\<close>

lemma queryHost_hit_quiet:
  assumes "debug fl < 3" "\<not> showCounters fl"
    "fst (loadStruct e fl node obj (maxCacheAge fl) w) = Some ce"
  shows "queryHost e fl multi ip node obj cn oi w = counterLookup e fl multi node cn oi ce w"
  unfolding queryHost_def Let_def split_def
  using assms loadStruct_hit_quiet[OF assms(1,3)] by simp

lemma loadStruct_fst_cong:
  "files w' = files w \<Longrightarrow> now w' = now w \<Longrightarrow>
   fst (loadStruct e fl node obj age w') = fst (loadStruct e fl node obj age w)"
  by (simp add: loadStruct_fst split: option.splits)

lemma saveStruct_fst_cong:
  "fst (saveStruct e fl node obj ce w') = fst (saveStruct e fl node obj ce w)"
  by (simp add: saveStruct_def Let_def split: option.splits)

lemma saveStruct_ok_stdout:
  "fst (saveStruct e fl node obj ce w) \<Longrightarrow> stdout (snd (saveStruct e fl node obj ce w)) = stdout w"
  by (auto simp: saveStruct_def Let_def split: option.splits if_splits)

text \<open>During a quiet probe nothing is written before the lookup.\<close>

lemma queryHost_quiet:
  assumes "\<not> showCounters fl" "probeSnapshot e fl ip node obj w = Some ce"
    "quietProbe e fl node obj ce w"
  shows "\<exists>w'. queryHost e fl multi ip node obj cn oi w = counterLookup e fl multi node cn oi ce w'
              \<and> stdout w' = stdout w \<and> logOutput w' = logOutput w"
proof (cases "fst (loadStruct e fl node obj (maxCacheAge fl) w)")
  case (Some ce')
  from Some assms(2) have "ce' = ce" by (simp add: probeSnapshot_def)
  with Some assms(3) queryHost_hit_quiet[of fl e node obj w ce multi ip cn oi] assms(1)
  show ?thesis by (auto simp: quietProbe_def)
next
  case None
  from None assms(2) have d: "perfmonCollectCounterData e ip node obj = Decoded ce"
    by (auto simp: probeSnapshot_def split: exchange.splits)
  from None assms(3) have q: "debug fl < 3"
    and f: "case files w (loadStruct_filename e fl node obj) of
              None \<Rightarrow> True
            | Some fs \<Rightarrow> now w - mtime fs > maxCacheAge fl"
    and sv: "fst (saveStruct e fl node obj ce w)"
    by (auto simp: quietProbe_def)
  have ld: "loadStruct e fl node obj (maxCacheAge fl) w = (None, w)"
  proof (cases "files w (loadStruct_filename e fl node obj)")
    case None
    then show ?thesis by (simp add: loadStruct_def Let_def)
  next
    case (Some fs)
    then show ?thesis using f q by (simp add: loadStruct_def Let_def)
  qed
  have rf: "remoteFetch e fl ip node obj w = Inr (ce, snd (saveStruct e fl node obj ce w))"
    using assms(1) d q by (simp add: remoteFetch_def Let_def)
  have "queryHost e fl multi ip node obj cn oi w =
          counterLookup e fl multi node cn oi ce (snd (saveStruct e fl node obj ce w))"
    unfolding queryHost_def Let_def split_def using q ld rf by simp
  then show ?thesis using saveStruct_ok_stdout[OF sv] by (intro exI[of _ "snd (saveStruct e fl node obj ce w)"]) simp
qed

lemma quietProbe_cong:
  assumes "files w' = files w" "now w' = now w"
  shows "quietProbe e fl node obj ce w' = quietProbe e fl node obj ce w"
  unfolding quietProbe_def assms
    loadStruct_fst_cong[OF assms, of e fl node obj "maxCacheAge fl"]
    saveStruct_fst_cong[of e fl node obj ce w' w]
  by (rule refl)

lemma counterLookup_found:
  assumes "cn \<noteq> []" "find (\<lambda>v. Name v = fullCounterName node oi cn) ce = Some v"
    "strconvParseFloat e (Value v) = (val, False)"
    "getNagiosReturnVal (strconvParseFloat e) val (warningThreshold fl) (criticalThreshold fl) = Some r"
  shows "fst (counterLookup e fl multi node cn oi ce w) = Exited r"
    and "\<exists>w1. loggerOnly fl w w1 \<and>
           stdout (snd (counterLookup e fl multi node cn oi ce w)) =
             stdout w1 @ [Printed (nagiosOutput fl (returnValText r) oi cn (Value v))]"
    and "debug fl < 3 \<Longrightarrow>
           stdout (snd (counterLookup e fl multi node cn oi ce w)) =
             stdout w @ [Printed (nagiosOutput fl (returnValText r) oi cn (Value v))]"
proof -
  let ?w1 = "debugPrintf fl 3 ''fullCounterName: >>%s<<'' w"
  let ?w2 = "debugPrintf fl 3 ''envelope.Body.perfmonCollectCounterDataResponse: %+v'' ?w1"
  let ?w3 = "debugPrintf fl 3 ''returnVal: %d'' ?w2"
  have s: "snd (counterLookup e fl multi node cn oi ce w) =
             printLine (nagiosOutput fl (returnValText r) oi cn (Value v)) ?w3"
    using assms by (simp add: counterLookup_def Let_def)
  have l: "loggerOnly fl w ?w3"
    using loggerOnly_trans[OF loggerOnly_trans[OF loggerOnly_debugPrintf3
          loggerOnly_debugPrintf3] loggerOnly_debugPrintf3] .
  show "fst (counterLookup e fl multi node cn oi ce w) = Exited r"
    using assms by (simp add: counterLookup_def Let_def)
  show "\<exists>w1. loggerOnly fl w w1 \<and>
           stdout (snd (counterLookup e fl multi node cn oi ce w)) =
             stdout w1 @ [Printed (nagiosOutput fl (returnValText r) oi cn (Value v))]"
    using s l by (intro exI[of _ ?w3]) simp
  show "stdout (snd (counterLookup e fl multi node cn oi ce w)) =
             stdout w @ [Printed (nagiosOutput fl (returnValText r) oi cn (Value v))]"
    if "debug fl < 3"
    using s that by simp
qed

lemma counterLookup_not_found:
  assumes "cn \<noteq> []" "find (\<lambda>v. Name v = fullCounterName node oi cn) ce = None"
  shows "fst (counterLookup e fl multi node cn oi ce w) = (if multi then Returned else Exited 3)"
    and "\<not> multi \<Longrightarrow> \<exists>w1. loggerOnly fl w w1 \<and>
           stdout (snd (counterLookup e fl multi node cn oi ce w)) =
             stdout w1 @ [Printed (''UNKNOWN - Counter not found: '' @ fullCounterName node oi cn)]"
    and "\<not> multi \<Longrightarrow> debug fl < 3 \<Longrightarrow>
           stdout (snd (counterLookup e fl multi node cn oi ce w)) =
             stdout w @ [Printed (''UNKNOWN - Counter not found: '' @ fullCounterName node oi cn)]"
    and "multi \<Longrightarrow> loggerOnly fl w (snd (counterLookup e fl multi node cn oi ce w))"
    and "multi \<Longrightarrow> debug fl < 3 \<Longrightarrow> snd (counterLookup e fl multi node cn oi ce w) = w"
    and "multi \<Longrightarrow> 3 \<le> debug fl \<Longrightarrow> logOutput w = ToStdout \<Longrightarrow>
           stdout (snd (counterLookup e fl multi node cn oi ce w)) \<noteq> [] \<and>
           last (stdout (snd (counterLookup e fl multi node cn oi ce w))) =
             Logged (''UNKNOWN - Counter not found: '' @ fullCounterName node oi cn)"
proof -
  let ?line = "''UNKNOWN - Counter not found: '' @ fullCounterName node oi cn"
  let ?w1 = "debugPrintf fl 3 ''fullCounterName: >>%s<<'' w"
  let ?w2 = "debugPrintf fl 3 ''envelope.Body.perfmonCollectCounterDataResponse: %+v'' ?w1"
  have l: "loggerOnly fl w ?w2"
    using loggerOnly_trans[OF loggerOnly_debugPrintf3 loggerOnly_debugPrintf3] .
  have s: "snd (counterLookup e fl multi node cn oi ce w) =
             (if multi then debugPrintf fl 3 ?line ?w2 else printLine ?line ?w2)"
    using assms by (simp add: counterLookup_def Let_def returnValText_def)
  show "fst (counterLookup e fl multi node cn oi ce w) = (if multi then Returned else Exited 3)"
    using assms by (simp add: counterLookup_def Let_def)
  show "\<exists>w1. loggerOnly fl w w1 \<and>
           stdout (snd (counterLookup e fl multi node cn oi ce w)) = stdout w1 @ [Printed ?line]"
    if "\<not> multi"
    using s l that by (intro exI[of _ ?w2]) simp
  show "stdout (snd (counterLookup e fl multi node cn oi ce w)) = stdout w @ [Printed ?line]"
    if "\<not> multi" "debug fl < 3"
    using s that by simp
  show "loggerOnly fl w (snd (counterLookup e fl multi node cn oi ce w))" if multi
    using s that loggerOnly_trans[OF l loggerOnly_debugPrintf3] by simp
  show "snd (counterLookup e fl multi node cn oi ce w) = w" if multi "debug fl < 3"
    using s that by simp
  show "stdout (snd (counterLookup e fl multi node cn oi ce w)) \<noteq> [] \<and>
        last (stdout (snd (counterLookup e fl multi node cn oi ce w))) = Logged ?line"
    if multi "3 \<le> debug fl" "logOutput w = ToStdout"
    using s that by (simp add: debugPrintf_def logPrintf_stdout)
qed

lemma counterLookup_no_counter:
  "counterLookup e fl multi node [] oi ce w = (Returned, w)"
  by (simp add: counterLookup_def)

lemma find_None_iff_names: "(find (\<lambda>v. Name v = full) ce = None) = (\<forall>v\<in>set ce. Name v \<noteq> full)"
  by (auto simp: find_None_iff)

text \<open>\<open>main\<close> with at most one node is the probe of that node, started with the logger
  on standard output.\<close>

lemma main_single:
  assumes "logFileOK e" "\<not> showVersion fl" "length (Split (nodesIpAddrs fl) CHR '','') \<le> 1"
  shows "\<exists>w'. main e fl w =
               queryHost e fl False (ipAddr fl) (nodeIpAddr fl)
                 (takeWhile (\<lambda>c. c \<noteq> CHR ''('') (objectInstance fl)) (counterName fl)
                 (objectInstance fl) w'
             \<and> loggerOnly fl w w' \<and> (debug fl < 3 \<longrightarrow> stdout w' = stdout w)
             \<and> logOutput w' = ToStdout \<and> files w' = files w \<and> now w' = now w"
proof -
  let ?w0 = "w\<lparr>logOutput := ToStdout\<rparr>"
  let ?w' = "debugPrintf fl 3 ''use multipe nodes: %v'' ?w0"
  have "loggerOnly fl w ?w0" by (rule loggerOnly_stdout_eq) simp
  then have "loggerOnly fl w ?w'" using loggerOnly_trans[OF _ loggerOnly_debugPrintf3] by blast
  moreover have "main e fl w =
               queryHost e fl False (ipAddr fl) (nodeIpAddr fl)
                 (takeWhile (\<lambda>c. c \<noteq> CHR ''('') (objectInstance fl)) (counterName fl)
                 (objectInstance fl) ?w'"
    using assms by (simp add: main_def Let_def)
  moreover have "debug fl < 3 \<longrightarrow> stdout ?w' = stdout w" by simp
  ultimately show ?thesis by (intro exI[of _ ?w']) simp
qed

lemma probeSnapshot_cong:
  "files w' = files w \<Longrightarrow> now w' = now w \<Longrightarrow>
   probeSnapshot e fl ip node obj w' = probeSnapshot e fl ip node obj w"
  unfolding probeSnapshot_def
  using loadStruct_fst_cong[of w' w e fl node obj "maxCacheAge fl"] by simp
subsection \<open>The pattern of \<open>isFullQualified\<close>\<close>

lemma takeWhile_append_all: "\<forall>x\<in>set xs. P x \<Longrightarrow> takeWhile P (xs @ ys) = xs @ takeWhile P ys"
  by (induction xs) auto

lemma backslash_not_newline: "backslash \<noteq> newline"
  by (simp add: backslash_def newline_def)

lemma two_in_filter:
  assumes "2 \<le> length (filter (\<lambda>c. c = x) l)"
  shows "\<exists>a b d. l = a @ [x] @ b @ [x] @ d"
proof -
  from assms have "filter (\<lambda>c. c = x) l \<noteq> []" by auto
  then have "x \<in> set l" by (auto simp: filter_empty_conv)
  then obtain a r where l: "l = a @ x # r" and na: "x \<notin> set a"
    by (auto dest: split_list_first)
  have "filter (\<lambda>c. c = x) a = []" using na by (auto simp: filter_empty_conv)
  with assms l have "1 \<le> length (filter (\<lambda>c. c = x) r)" by simp
  then have "filter (\<lambda>c. c = x) r \<noteq> []" by auto
  then have "x \<in> set r" by (auto simp: filter_empty_conv)
  then obtain b d where r: "r = b @ x # d" by (auto dest: split_list)
  show ?thesis using l r by auto
qed

lemma isFullQualified_pattern:
  "isFullQualified c =
     (\<exists>a b d. c = [backslash, backslash] @ a @ [backslash] @ b @ [backslash] @ d
              \<and> newline \<notin> set a \<and> newline \<notin> set b)"
proof
  assume q: "isFullQualified c"
  then obtain rest where c: "c = backslash # backslash # rest"
    and two: "2 \<le> length (filter (\<lambda>c. c = backslash) (takeWhile (\<lambda>c. c \<noteq> newline) rest))"
    by (auto simp: isFullQualified_def split: list.splits)
  from two_in_filter[OF two] obtain a b d where
    l: "takeWhile (\<lambda>c. c \<noteq> newline) rest = a @ [backslash] @ b @ [backslash] @ d" by blast
  have "\<forall>x\<in>set (takeWhile (\<lambda>c. c \<noteq> newline) rest). x \<noteq> newline"
    by (auto dest: set_takeWhileD)
  then have nl: "newline \<notin> set a" "newline \<notin> set b" unfolding l by auto
  have "rest = (a @ [backslash] @ b @ [backslash] @ d) @ dropWhile (\<lambda>c. c \<noteq> newline) rest"
    using takeWhile_dropWhile_id[of "\<lambda>c. c \<noteq> newline" rest] l by simp
  then have "c = [backslash, backslash] @ a @ [backslash] @ b @ [backslash]
                 @ (d @ dropWhile (\<lambda>c. c \<noteq> newline) rest)"
    using c by simp
  with nl show "\<exists>a b d. c = [backslash, backslash] @ a @ [backslash] @ b @ [backslash] @ d
              \<and> newline \<notin> set a \<and> newline \<notin> set b" by blast
next
  assume "\<exists>a b d. c = [backslash, backslash] @ a @ [backslash] @ b @ [backslash] @ d
              \<and> newline \<notin> set a \<and> newline \<notin> set b"
  then obtain a b d where c: "c = [backslash, backslash] @ a @ [backslash] @ b @ [backslash] @ d"
    and nl: "newline \<notin> set a" "newline \<notin> set b" by blast
  have all: "\<forall>x\<in>set (a @ [backslash] @ b @ [backslash]). x \<noteq> newline"
    using nl backslash_not_newline by auto
  have "takeWhile (\<lambda>c. c \<noteq> newline) ((a @ [backslash] @ b @ [backslash]) @ d) =
          (a @ [backslash] @ b @ [backslash]) @ takeWhile (\<lambda>c. c \<noteq> newline) d"
    by (rule takeWhile_append_all[OF all])
  then have "2 \<le> length (filter (\<lambda>c. c = backslash)
                 (takeWhile (\<lambda>c. c \<noteq> newline) (a @ [backslash] @ b @ [backslash] @ d)))"
    by simp
  then show "isFullQualified c" unfolding c by (simp add: isFullQualified_def)
qed

subsection \<open>The status line\<close>

lemma Replace_append: "Replace (a @ b) old new = Replace a old new @ Replace b old new"
  by (induction a) auto

lemma Replace_concat: "Replace (concat ls) old new = concat (map (\<lambda>l. Replace l old new) ls)"
  by (induction ls) (auto simp: Replace_append)

lemma sanitizeChar_steps:
  "Replace (Replace (escapeChar c) CHR ''%'' ''Percent'') backslash [backslash, backslash] =
     sanitizeChar c"
  by (simp add: escapeChar_def sanitizeChar_def backslash_def)

lemma sanitize_steps:
  "Replace (Replace (EscapeString s) CHR ''%'' ''Percent'') backslash [backslash, backslash] =
     sanitize s"
  by (simp add: EscapeString_def sanitize_def Replace_concat o_def sanitizeChar_steps)

lemma sanitize_append: "sanitize (a @ b) = sanitize a @ sanitize b"
  by (simp add: sanitize_def)

lemma sanitize_plain: "\<forall>c\<in>set s. sanitizeChar c = [c] \<Longrightarrow> sanitize s = s"
  unfolding sanitize_def by (induction s) auto

lemma sanitize_returnValText: "sanitize (returnValText r) = returnValText r"
  by (rule sanitize_plain)
    (auto simp: returnValText_def sanitizeChar_def escapeChar_def backslash_def)

lemma sanitize_outputPrefix: "sanitize outputPrefix = outputPrefix"
  by (rule sanitize_plain)
    (auto simp: outputPrefix_def sanitizeChar_def escapeChar_def backslash_def)

lemma sanitize_separators:
  "sanitize '' - '' = '' - ''" "sanitize '','' = '',''" "sanitize ''='' = ''=''"
  "sanitize ''|'' = ''|''" "sanitize '';'' = '';''" "sanitize '';;'' = '';;''"
  by (simp_all add: sanitize_def sanitizeChar_def escapeChar_def backslash_def)

lemma sanitize_no_special:
  "set (sanitize s) \<inter> {CHR ''%'', CHR ''<'', CHR ''>'', CHR 0x22, CHR 0x27} = {}"
proof -
  have "set (sanitizeChar c) \<inter> {CHR ''%'', CHR ''<'', CHR ''>'', CHR 0x22, CHR 0x27} = {}" for c
    by (simp add: sanitizeChar_def escapeChar_def backslash_def)
  then show ?thesis unfolding sanitize_def by (induction s) auto
qed

lemma getNagiosReturnVal_total: "\<exists>r. getNagiosReturnVal pf v warn crit = Some r"
  using generateAlert_total[of pf v warn] generateAlert_total[of pf v crit]
  by (auto simp: getNagiosReturnVal_def split: option.splits)

lemma nagiosOutput_form:
  "nagiosOutput fl (returnValText r) oi cn x =
     returnValText r @ '' - '' @ outputPrefix @ '','' @ sanitize oi @ '','' @ sanitize cn
     @ ''='' @ sanitize x @ ''|'' @ sanitize cn @ ''='' @ sanitize x @ '';''
     @ sanitize (warningThreshold fl) @ '';'' @ sanitize (criticalThreshold fl) @ '';;''"
  unfolding nagiosOutput_def Let_def sanitize_steps
  by (simp only: sanitize_append sanitize_returnValText sanitize_outputPrefix sanitize_separators)


subsection \<open>The listing of version 0.3\<close>

lemma foldl_max_len:
  "foldl (\<lambda>m v. if length (Name v) > m then length (Name v) else m) a items =
     Max (insert a ((\<lambda>v. length (Name v)) ` set items))"
proof (induction items arbitrary: a)
  case Nil
  show ?case by simp
next
  case (Cons x xs)
  have "Max (insert (max a (length (Name x))) ((\<lambda>v. length (Name v)) ` set xs)) =
        Max (insert a (insert (length (Name x)) ((\<lambda>v. length (Name v)) ` set xs)))"
    by (cases "set xs = {}") (auto simp: max.assoc max.left_commute)
  then show ?case using Cons[of "max a (length (Name x))"]
    by (auto simp: max_def)
qed

lemma listSnapshot_lines:
  "length (listSnapshot items) = length items"
  "i < length items \<Longrightarrow>
     \<exists>pad. listSnapshot items ! i = ''Name: '' @ Name (items ! i) @ pad @ ''Value: '' @ Value (items ! i)
          \<and> set pad \<subseteq> {CHR '' ''}
          \<and> length (''Name: '' @ Name (items ! i) @ pad) =
              9 + Max (insert 0 ((\<lambda>v. length (Name v)) ` set items))"
proof -
  show "length (listSnapshot items) = length items" by (simp add: listSnapshot_def Let_def)
  assume i: "i < length items"
  let ?m = "Max (insert 0 ((\<lambda>v. length (Name v)) ` set items))"
  have le: "length (Name (items ! i)) \<le> ?m"
    using i by (intro Max_ge) auto
  let ?pad = "replicate (?m + 3 - length (Name (items ! i))) CHR '' ''"
  have l: "listSnapshot items ! i =
             ''Name: '' @ Name (items ! i) @ ?pad @ ''Value: '' @ Value (items ! i)"
    using i by (simp add: listSnapshot_def Let_def foldl_max_len)
  have p: "set ?pad \<subseteq> {CHR '' ''}" by auto
  have n: "length (''Name: '' @ Name (items ! i) @ ?pad) = 9 + ?m"
    using le by simp
  show "\<exists>pad. listSnapshot items ! i = ''Name: '' @ Name (items ! i) @ pad @ ''Value: '' @ Value (items ! i)
          \<and> set pad \<subseteq> {CHR '' ''}
          \<and> length (''Name: '' @ Name (items ! i) @ pad) = 9 + ?m"
    using l p n by blast
qed


subsection \<open>The loop over the nodes\<close>








section \<open>The claims\<close>

text \<open>
  C1 (the five forms of the range grammar). The claim asks that \<open>N:M\<close> alerts exactly when
  the value is below \<open>N\<close> or above \<open>M\<close>. With a signed lower bound the code does not:
  \<open>-5:10\<close> alerts for every value, whatever \<open>ParseFloat\<close> returns, since the pattern that
  recognises the form admits digits and dots only and the \<open>switch\<close> falls through to
  \<open>return true\<close>. The other forms read the same bound as written: \<open>@-5:10\<close> alerts at 0 and
  not at -7, and \<open>-5:\<close> alerts at -7 and not at 0.
\<close>

theorem generateAlert_signed_range_always_alerts:
  "generateAlert pf v ''-5:10'' = Some True
   \<and> generateAlert ParseFloat (Fin 0) ''@-5:10'' = Some True
   \<and> generateAlert ParseFloat (Fin (- 7)) ''@-5:10'' = Some False
   \<and> generateAlert ParseFloat (Fin 0) ''-5:'' = Some False
   \<and> generateAlert ParseFloat (Fin (- 7)) ''-5:'' = Some True"
proof -
  have "generateAlert pf v (''-5'' @ CHR '':'' # ''10'') = Some True"
    by (subst generateAlert_two_parts) (simp_all add: HasPrefix_def numChar_def)
  then have a: "generateAlert pf v ''-5:10'' = Some True" by simp
  have b: "generateAlert ParseFloat (Fin 0) ''@-5:10'' = Some True" by code_simp
  have c: "generateAlert ParseFloat (Fin (- 7)) ''@-5:10'' = Some False" by code_simp
  have d: "generateAlert ParseFloat (Fin 0) ''-5:'' = Some False" by code_simp
  have e: "generateAlert ParseFloat (Fin (- 7)) ''-5:'' = Some True" by code_simp
  show ?thesis using a b c d e by simp
qed

text \<open>
  C2 (critical before warning). For every parser, value and pair of range strings,
  \<open>getNagiosReturnVal\<close> returns 2 when the critical range alerts, else 1 when the warning
  range alerts, else 0, and it never panics. With warning \<open>10\<close> and critical \<open>20\<close> it
  returns 2 for the value 25, 1 for 15 and 0 for 5.
\<close>

theorem getNagiosReturnVal_critical_first:
  "getNagiosReturnVal pf v warn crit =
     Some (if generateAlert pf v crit = Some True then 2
           else if generateAlert pf v warn = Some True then 1
           else 0)
   \<and> getNagiosReturnVal ParseFloat (Fin 25) ''10'' ''20'' = Some 2
   \<and> getNagiosReturnVal ParseFloat (Fin 15) ''10'' ''20'' = Some 1
   \<and> getNagiosReturnVal ParseFloat (Fin 5) ''10'' ''20'' = Some 0"
proof -
  obtain a where a: "generateAlert pf v warn = Some a"
    using generateAlert_total[of pf v warn] by auto
  obtain b where b: "generateAlert pf v crit = Some b"
    using generateAlert_total[of pf v crit] by auto
  have general: "getNagiosReturnVal pf v warn crit =
     Some (if generateAlert pf v crit = Some True then 2
           else if generateAlert pf v warn = Some True then 1
           else 0)"
    by (simp add: getNagiosReturnVal_def a b)
  have e1: "getNagiosReturnVal ParseFloat (Fin 25) ''10'' ''20'' = Some 2" by code_simp
  have e2: "getNagiosReturnVal ParseFloat (Fin 15) ''10'' ''20'' = Some 1" by code_simp
  have e3: "getNagiosReturnVal ParseFloat (Fin 5) ''10'' ''20'' = Some 0" by code_simp
  show ?thesis using general e1 e2 e3 by simp
qed

theorem getNagiosReturnVal_critical_first_witness:
  "getNagiosReturnVal ParseFloat (Fin 25) ''10:'' ''@20:30'' = Some 2
   \<and> getNagiosReturnVal ParseFloat (Fin 12) ''~:10'' ''@20:30'' = Some 1"
proof -
  have a: "generateAlert ParseFloat (Fin 25) ''@20:30'' = Some True" by code_simp
  have b: "generateAlert ParseFloat (Fin 12) ''@20:30'' = Some False" by code_simp
  have c: "generateAlert ParseFloat (Fin 12) ''~:10'' = Some True" by code_simp
  show ?thesis
    using getNagiosReturnVal_critical_first[of ParseFloat "Fin 25" "''10:''" "''@20:30''"]
      getNagiosReturnVal_critical_first[of ParseFloat "Fin 12" "''~:10''" "''@20:30''"] a b c
    by simp
qed





text \<open>
  C5 (cache round trip and maximum age). A \<open>saveStruct\<close> that succeeds, followed by a
  \<open>loadStruct\<close> of the same node and object at a time when no more than the maximum age
  has passed since the save, yields the envelope that was saved, provided the JSON codec
  returns this envelope from its own encoding and the slot was new or readable. With
  maximum age 0, \<open>loadStruct\<close> misses every entry whose modification time is earlier
  than the current second, and serves an entry of the current second (or later) that is
  readable and decodes: the test is \<open>now - mtime > ageInSeconds\<close>, so age 0 does not
  always miss.
\<close>

theorem cache_roundtrip_and_age:
  "(saveStruct e fl node obj ce w = (True, w')
      \<and> (\<forall>j. jsonMarshal e ce = Some j \<longrightarrow> jsonUnmarshal e j = Some ce)
      \<and> (\<forall>old. files w (saveStruct_filename e fl node obj) = Some old \<longrightarrow> readable old)
      \<and> t - now w \<le> age
    \<longrightarrow> fst (loadStruct e fl node obj age (w'\<lparr>now := t\<rparr>)) = Some ce)
   \<and> (files w (loadStruct_filename e fl node obj) = Some f \<and> mtime f < now w
    \<longrightarrow> fst (loadStruct e fl node obj 0 w) = None)
   \<and> (files w (loadStruct_filename e fl node obj) = Some f \<and> now w \<le> mtime f \<and> readable f
    \<longrightarrow> fst (loadStruct e fl node obj 0 w) = jsonUnmarshal e (content f))"
proof -
  have a: "fst (loadStruct e fl node obj age (w'\<lparr>now := t\<rparr>)) = Some ce"
    if "saveStruct e fl node obj ce w = (True, w')"
      "\<forall>j. jsonMarshal e ce = Some j \<longrightarrow> jsonUnmarshal e j = Some ce"
      "\<forall>old. files w (saveStruct_filename e fl node obj) = Some old \<longrightarrow> readable old"
      "t - now w \<le> age"
    using load_after_save[OF that] .
  have b: "fst (loadStruct e fl node obj 0 w) = None"
    if "files w (loadStruct_filename e fl node obj) = Some f" "mtime f < now w"
    using that by (simp add: loadStruct_fst)
  have c: "fst (loadStruct e fl node obj 0 w) = jsonUnmarshal e (content f)"
    if "files w (loadStruct_filename e fl node obj) = Some f" "now w \<le> mtime f" "readable f"
    using that by (simp add: loadStruct_fst)
  show ?thesis using a b c by blast
qed

theorem cache_roundtrip_and_age_witness:
  "fst (loadStruct sampleEnv sampleFlags ''10.0.0.1'' ''Memory'' 180
         ((snd (saveStruct sampleEnv sampleFlags ''10.0.0.1'' ''Memory''
                  (sampleSnapshot ''10.0.0.1'' ''512'') sampleWorld))\<lparr>now := 1700000060\<rparr>))
     = Some (sampleSnapshot ''10.0.0.1'' ''512'')
   \<and> fst (loadStruct sampleEnv sampleFlags ''10.0.0.1'' ''Memory'' 0
         ((snd (saveStruct sampleEnv sampleFlags ''10.0.0.1'' ''Memory''
                  (sampleSnapshot ''10.0.0.1'' ''512'') sampleWorld))\<lparr>now := 1700000001\<rparr>))
     = None
   \<and> fst (loadStruct sampleEnv sampleFlags ''10.0.0.1'' ''Memory'' 0
         (snd (saveStruct sampleEnv sampleFlags ''10.0.0.1'' ''Memory''
                  (sampleSnapshot ''10.0.0.1'' ''512'') sampleWorld)))
     = Some (sampleSnapshot ''10.0.0.1'' ''512'')"
proof -
  let ?ce = "sampleSnapshot ''10.0.0.1'' ''512''"
  let ?W = "snd (saveStruct sampleEnv sampleFlags ''10.0.0.1'' ''Memory'' ?ce sampleWorld)"
  let ?fn = "loadStruct_filename sampleEnv sampleFlags ''10.0.0.1'' ''Memory''"
  have save: "saveStruct sampleEnv sampleFlags ''10.0.0.1'' ''Memory'' ?ce sampleWorld = (True, ?W)"
    using sample_save_ok by (simp add: prod_eq_iff)
  have rt: "\<forall>j. jsonMarshal sampleEnv ?ce = Some j \<longrightarrow> jsonUnmarshal sampleEnv j = Some ?ce"
    using sample_roundtrip by (auto simp: sampleEnv_def)
  have rd: "\<forall>old. files sampleWorld (saveStruct_filename sampleEnv sampleFlags ''10.0.0.1'' ''Memory'')
              = Some old \<longrightarrow> readable old"
    by (simp add: sampleWorld_def)
  from saveStruct_True[OF save] obtain j where j: "jsonMarshal sampleEnv ?ce = Some j"
    and f: "files ?W ?fn = Some \<lparr>mtime = now sampleWorld, content = j, readable = True\<rparr>"
    by (auto simp: filename_same sampleWorld_def)
  have u: "jsonUnmarshal sampleEnv j = Some ?ce" using rt j by blast
  have now0: "now sampleWorld = 1700000000" by (simp add: sampleWorld_def)
  note t = cache_roundtrip_and_age
  have "fst (loadStruct sampleEnv sampleFlags ''10.0.0.1'' ''Memory'' 180 (?W\<lparr>now := 1700000060\<rparr>))
          = Some ?ce"
    using t[of sampleEnv sampleFlags "''10.0.0.1''" "''Memory''" ?ce sampleWorld ?W 1700000060 180]
      save rt rd now0 by simp
  moreover have "fst (loadStruct sampleEnv sampleFlags ''10.0.0.1'' ''Memory'' 0
                       (?W\<lparr>now := 1700000001\<rparr>)) = None"
    using t[of sampleEnv sampleFlags "''10.0.0.1''" "''Memory''" ?ce "?W\<lparr>now := 1700000001\<rparr>" ?W 0 0
            "\<lparr>mtime = now sampleWorld, content = j, readable = True\<rparr>"] f now0
    by simp
  moreover have "fst (loadStruct sampleEnv sampleFlags ''10.0.0.1'' ''Memory'' 0 ?W) = Some ?ce"
    using t[of sampleEnv sampleFlags "''10.0.0.1''" "''Memory''" ?ce ?W ?W 0 0
            "\<lparr>mtime = now sampleWorld, content = j, readable = True\<rparr>"] f u
    by simp
  ultimately show ?thesis by simp
qed

text \<open>The claim as it was stated fails right after a save: the entry exists and a load
  with maximum age 0 in the same second returns it.\<close>

theorem cache_max_age_zero_counterexample:
  "files (snd (saveStruct sampleEnv sampleFlags ''10.0.0.1'' ''Memory''
                 (sampleSnapshot ''10.0.0.1'' ''512'') sampleWorld))
     (loadStruct_filename sampleEnv sampleFlags ''10.0.0.1'' ''Memory'') \<noteq> None
   \<and> fst (loadStruct sampleEnv sampleFlags ''10.0.0.1'' ''Memory'' 0
           (snd (saveStruct sampleEnv sampleFlags ''10.0.0.1'' ''Memory''
                   (sampleSnapshot ''10.0.0.1'' ''512'') sampleWorld)))
       = Some (sampleSnapshot ''10.0.0.1'' ''512'')"
  by code_simp


text \<open>
  C6 (single target, counter not found). In single-target mode, when the probe is not in
  list mode, a non-empty counter name is requested and no sample of the snapshot (the
  cached one, else the fetched one) carries the full counter name, \<open>queryHost\<close> leaves the
  process with code 3 and its last write to standard output is the line
  \<open>UNKNOWN - Counter not found:\<close> followed by the full counter name; what it wrote before
  that line are messages of the logger only, and nothing when the probe is quiet. So does
  \<open>main\<close> when at most one node is listed, and so does the \<open>main\<close> of version 0.3 on
  a snapshot without such a sample, where the logger writes to the log file.
\<close>

theorem single_target_counter_not_found:
  "(\<not> showCounters fl \<and> probeSnapshot e fl ip node obj w = Some ce \<and> cn \<noteq> []
      \<and> (\<forall>v\<in>set ce. Name v \<noteq> fullCounterName node oi cn)
    \<longrightarrow> fst (queryHost e fl False ip node obj cn oi w) = Exited 3
        \<and> (\<exists>w1. loggerOnly fl w w1 \<and>
              stdout (snd (queryHost e fl False ip node obj cn oi w)) =
                stdout w1 @
                [Printed (''UNKNOWN - Counter not found: '' @ fullCounterName node oi cn)])
        \<and> (quietProbe e fl node obj ce w \<longrightarrow>
              stdout (snd (queryHost e fl False ip node obj cn oi w)) =
                stdout w @
                [Printed (''UNKNOWN - Counter not found: '' @ fullCounterName node oi cn)]))
   \<and> (logFileOK e \<and> \<not> showVersion fl \<and> length (Split (nodesIpAddrs fl) CHR '','') \<le> 1
      \<and> \<not> showCounters fl \<and> counterName fl \<noteq> []
      \<and> probeSnapshot e fl (ipAddr fl) (nodeIpAddr fl)
            (takeWhile (\<lambda>c. c \<noteq> CHR ''('') (objectInstance fl)) w = Some ce
      \<and> (\<forall>v\<in>set ce. Name v \<noteq>
            fullCounterName (nodeIpAddr fl) (objectInstance fl) (counterName fl))
    \<longrightarrow> exitStatus (fst (main e fl w)) = 3
        \<and> (\<exists>w1. loggerOnly fl w w1 \<and>
              stdout (snd (main e fl w)) =
                stdout w1 @
                [Printed (''UNKNOWN - Counter not found: '' @
                          fullCounterName (nodeIpAddr fl) (objectInstance fl) (counterName fl))])
        \<and> (quietProbe e fl (nodeIpAddr fl)
              (takeWhile (\<lambda>c. c \<noteq> CHR ''('') (objectInstance fl)) ce w \<longrightarrow>
              stdout (snd (main e fl w)) =
                stdout w @
                [Printed (''UNKNOWN - Counter not found: '' @
                          fullCounterName (nodeIpAddr fl) (objectInstance fl) (counterName fl))]))
   \<and> (counterName fl \<noteq> []
      \<and> (\<forall>v\<in>set ce. Name v \<noteq>
            fullCounterName (nodeIpAddr fl) (objectInstance fl) (counterName fl))
    \<longrightarrow> fst (main03_report e fl (Some ce) w) = Exited 3
        \<and> (\<exists>w1. loggerOnly fl w w1 \<and>
              stdout (snd (main03_report e fl (Some ce) w)) =
                stdout w1 @
                [Printed (''UNKNOWN - Counter not found: '' @
                          fullCounterName (nodeIpAddr fl) (objectInstance fl) (counterName fl))])
        \<and> (logOutput w = ToLogfile \<or> debug fl < 3 \<longrightarrow>
              stdout (snd (main03_report e fl (Some ce) w)) =
                stdout w @
                [Printed (''UNKNOWN - Counter not found: '' @
                          fullCounterName (nodeIpAddr fl) (objectInstance fl) (counterName fl))]))"
proof -
  have q: "fst (queryHost e fl False ip node obj cn oi w) = Exited 3
        \<and> (\<exists>w1. loggerOnly fl w w1 \<and>
              stdout (snd (queryHost e fl False ip node obj cn oi w)) =
                stdout w1 @
                [Printed (''UNKNOWN - Counter not found: '' @ fullCounterName node oi cn)])
        \<and> (quietProbe e fl node obj ce w \<longrightarrow>
              stdout (snd (queryHost e fl False ip node obj cn oi w)) =
                stdout w @
                [Printed (''UNKNOWN - Counter not found: '' @ fullCounterName node oi cn)])"
    if h: "\<not> showCounters fl" "probeSnapshot e fl ip node obj w = Some ce" "cn \<noteq> []"
      "\<forall>v\<in>set ce. Name v \<noteq> fullCounterName node oi cn"
    for ip node obj cn oi w
  proof -
    let ?line = "Printed (''UNKNOWN - Counter not found: '' @ fullCounterName node oi cn)"
    have f: "find (\<lambda>v. Name v = fullCounterName node oi cn) ce = None"
      using h(4) by (simp add: find_None_iff_names)
    note c = counterLookup_not_found[OF h(3) f, where e=e and fl=fl and multi=False]
    from queryHost_lookup[OF h(1,2)] obtain w' where
      w': "queryHost e fl False ip node obj cn oi w = counterLookup e fl False node cn oi ce w'"
      "loggerOnly fl w w'" by blast
    from c(2)[of w'] obtain w1 where
      w1: "loggerOnly fl w' w1"
      "stdout (snd (counterLookup e fl False node cn oi ce w')) = stdout w1 @ [?line]"
      by auto
    have a: "fst (queryHost e fl False ip node obj cn oi w) = Exited 3"
      using c(1)[of w'] w'(1) by simp
    have b: "\<exists>w1. loggerOnly fl w w1 \<and>
              stdout (snd (queryHost e fl False ip node obj cn oi w)) = stdout w1 @ [?line]"
      using loggerOnly_trans[OF w'(2) w1(1)] w1(2) w'(1) by auto
    have d: "stdout (snd (queryHost e fl False ip node obj cn oi w)) = stdout w @ [?line]"
      if qp: "quietProbe e fl node obj ce w"
    proof -
      from queryHost_quiet[OF h(1,2) qp] obtain w2 where
        w2: "queryHost e fl False ip node obj cn oi w = counterLookup e fl False node cn oi ce w2"
        "stdout w2 = stdout w" by blast
      have "debug fl < 3" using qp by (simp add: quietProbe_def)
      then show ?thesis using c(3)[of w2] w2 by simp
    qed
    show ?thesis using a b d by blast
  qed
  have m: "exitStatus (fst (main e fl w)) = 3
        \<and> (\<exists>w1. loggerOnly fl w w1 \<and>
              stdout (snd (main e fl w)) =
                stdout w1 @
                [Printed (''UNKNOWN - Counter not found: '' @
                          fullCounterName (nodeIpAddr fl) (objectInstance fl) (counterName fl))])
        \<and> (quietProbe e fl (nodeIpAddr fl)
              (takeWhile (\<lambda>c. c \<noteq> CHR ''('') (objectInstance fl)) ce w \<longrightarrow>
              stdout (snd (main e fl w)) =
                stdout w @
                [Printed (''UNKNOWN - Counter not found: '' @
                          fullCounterName (nodeIpAddr fl) (objectInstance fl) (counterName fl))])"
    if h: "logFileOK e" "\<not> showVersion fl" "length (Split (nodesIpAddrs fl) CHR '','') \<le> 1"
      "\<not> showCounters fl" "counterName fl \<noteq> []"
      "probeSnapshot e fl (ipAddr fl) (nodeIpAddr fl)
            (takeWhile (\<lambda>c. c \<noteq> CHR ''('') (objectInstance fl)) w = Some ce"
      "\<forall>v\<in>set ce. Name v \<noteq>
            fullCounterName (nodeIpAddr fl) (objectInstance fl) (counterName fl)"
  proof -
    let ?obj = "takeWhile (\<lambda>c. c \<noteq> CHR ''('') (objectInstance fl)"
    let ?line = "Printed (''UNKNOWN - Counter not found: '' @
                   fullCounterName (nodeIpAddr fl) (objectInstance fl) (counterName fl))"
    from main_single[OF h(1,2,3), of w] obtain w' where
      w': "main e fl w =
               queryHost e fl False (ipAddr fl) (nodeIpAddr fl) ?obj (counterName fl)
                 (objectInstance fl) w'"
      "loggerOnly fl w w'" "debug fl < 3 \<longrightarrow> stdout w' = stdout w"
      "files w' = files w" "now w' = now w" by blast
    have p: "probeSnapshot e fl (ipAddr fl) (nodeIpAddr fl) ?obj w' = Some ce"
      using probeSnapshot_cong[OF w'(4,5)] h(6) by simp
    note q' = q[OF h(4) p h(5) h(7)]
    from q' obtain w1 where w1: "loggerOnly fl w' w1"
      "stdout (snd (queryHost e fl False (ipAddr fl) (nodeIpAddr fl) ?obj (counterName fl)
                 (objectInstance fl) w')) = stdout w1 @ [?line]" by blast
    have a: "exitStatus (fst (main e fl w)) = 3" using q' w'(1) by simp
    have b: "\<exists>w1. loggerOnly fl w w1 \<and> stdout (snd (main e fl w)) = stdout w1 @ [?line]"
      using loggerOnly_trans[OF w'(2) w1(1)] w1(2) w'(1) by auto
    have d: "stdout (snd (main e fl w)) = stdout w @ [?line]"
      if qp: "quietProbe e fl (nodeIpAddr fl) ?obj ce w"
    proof -
      have "quietProbe e fl (nodeIpAddr fl) ?obj ce w'"
        using quietProbe_cong[OF w'(4,5)] qp by simp
      moreover have "stdout w' = stdout w" using qp w'(3) by (simp add: quietProbe_def)
      ultimately show ?thesis using q' w'(1) by simp
    qed
    show ?thesis using a b d by blast
  qed
  have r: "fst (main03_report e fl (Some ce) w) = Exited 3
        \<and> (\<exists>w1. loggerOnly fl w w1 \<and>
              stdout (snd (main03_report e fl (Some ce) w)) =
                stdout w1 @
                [Printed (''UNKNOWN - Counter not found: '' @
                          fullCounterName (nodeIpAddr fl) (objectInstance fl) (counterName fl))])
        \<and> (logOutput w = ToLogfile \<or> debug fl < 3 \<longrightarrow>
              stdout (snd (main03_report e fl (Some ce) w)) =
                stdout w @
                [Printed (''UNKNOWN - Counter not found: '' @
                          fullCounterName (nodeIpAddr fl) (objectInstance fl) (counterName fl))])"
    if h: "counterName fl \<noteq> []"
      "\<forall>v\<in>set ce. Name v \<noteq>
            fullCounterName (nodeIpAddr fl) (objectInstance fl) (counterName fl)"
  proof -
    let ?line = "Printed (''UNKNOWN - Counter not found: '' @
                   fullCounterName (nodeIpAddr fl) (objectInstance fl) (counterName fl))"
    let ?w1 = "debugPrintf fl 3 ''fullCounterName: >>%s<<'' w"
    have f: "find (\<lambda>v. Name v =
                 fullCounterName (nodeIpAddr fl) (objectInstance fl) (counterName fl)) ce = None"
      using h(2) by (simp add: find_None_iff_names)
    have s: "main03_report e fl (Some ce) w =
               (Exited 3, printLine (''UNKNOWN - Counter not found: '' @
                   fullCounterName (nodeIpAddr fl) (objectInstance fl) (counterName fl)) ?w1)"
      using h(1) f by (simp add: main03_report_def Let_def returnValText_def)
    have b: "\<exists>w1. loggerOnly fl w w1 \<and>
              stdout (snd (main03_report e fl (Some ce) w)) = stdout w1 @ [?line]"
      using s by (intro exI[of _ ?w1]) simp
    have d: "stdout (snd (main03_report e fl (Some ce) w)) = stdout w @ [?line]"
      if "logOutput w = ToLogfile \<or> debug fl < 3"
      using s that by (auto simp: debugPrintf_def logPrintf_stdout)
    show ?thesis using s b d by simp
  qed
  show ?thesis using q m r by blast
qed

theorem single_target_counter_not_found_witness:
  "exitStatus (fst (main sampleEnv (sampleFlags\<lparr>counterName := ''Nope''\<rparr>) sampleWorld)) = 3
   \<and> stdout (snd (main sampleEnv (sampleFlags\<lparr>counterName := ''Nope''\<rparr>) sampleWorld)) =
       [Printed (''UNKNOWN - Counter not found: '' @ [backslash, backslash] @ ''10.0.0.1''
          @ [backslash] @ ''Memory'' @ [backslash] @ ''Nope'')]
   \<and> fst (main03_report sampleEnv (sampleFlags\<lparr>counterName := ''Nope''\<rparr>)
            (Some (sampleSnapshot ''10.0.0.1'' ''512'')) sampleWorld) = Exited 3"
proof -
  let ?fl = "sampleFlags\<lparr>counterName := ''Nope''\<rparr>"
  let ?ce = "sampleSnapshot ''10.0.0.1'' ''512''"
  have h1: "logFileOK sampleEnv" "\<not> showVersion ?fl" "\<not> showCounters ?fl" "counterName ?fl \<noteq> []"
    by (simp_all add: sampleEnv_def sampleFlags_def)
  have h2: "length (Split (nodesIpAddrs ?fl) CHR '','') \<le> 1" by code_simp
  have h3: "probeSnapshot sampleEnv ?fl (ipAddr ?fl) (nodeIpAddr ?fl)
              (takeWhile (\<lambda>c. c \<noteq> CHR ''('') (objectInstance ?fl)) sampleWorld = Some ?ce"
    by code_simp
  have h4: "\<forall>v\<in>set ?ce. Name v \<noteq>
              fullCounterName (nodeIpAddr ?fl) (objectInstance ?fl) (counterName ?fl)"
    by code_simp
  have h5: "quietProbe sampleEnv ?fl (nodeIpAddr ?fl)
              (takeWhile (\<lambda>c. c \<noteq> CHR ''('') (objectInstance ?fl)) ?ce sampleWorld"
    by code_simp
  have n: "fullCounterName (nodeIpAddr ?fl) (objectInstance ?fl) (counterName ?fl) =
             [backslash, backslash] @ ''10.0.0.1'' @ [backslash] @ ''Memory'' @ [backslash] @ ''Nope''"
    by code_simp
  have s: "stdout sampleWorld = []" by (simp add: sampleWorld_def)
  show ?thesis
    using single_target_counter_not_found[of ?fl sampleEnv "ipAddr ?fl" "nodeIpAddr ?fl"
        "takeWhile (\<lambda>c. c \<noteq> CHR ''('') (objectInstance ?fl)" sampleWorld ?ce "counterName ?fl"
        "objectInstance ?fl"] h1 h2 h3 h4 h5 n s
    by simp
qed
text \<open>
  C7 (full counter name). A counter name that matches the pattern of \<open>isFullQualified\<close>
  is used unchanged; any other name is prefixed with two backslashes, the node, a backslash,
  the object with its instance as given on the command line, and a backslash. The test
  looks at the text alone: a name matches exactly when it starts with two backslashes that
  are followed, before any newline, by two more backslashes. Counter \<open>Foo\<close> on node
  10.0.0.1 and object \<open>Memory\<close> gives \<open>\\10.0.0.1\Memory\Foo\<close>.
\<close>

theorem fullCounterName_passes_or_synthesizes:
  "(isFullQualified c \<longrightarrow> fullCounterName node oi c = c)
   \<and> (\<not> isFullQualified c \<longrightarrow>
        fullCounterName node oi c =
          [backslash, backslash] @ node @ [backslash] @ oi @ [backslash] @ c)
   \<and> isFullQualified c =
        (\<exists>a b d. c = [backslash, backslash] @ a @ [backslash] @ b @ [backslash] @ d
                 \<and> newline \<notin> set a \<and> newline \<notin> set b)
   \<and> fullCounterName ''10.0.0.1'' ''Memory'' ''Foo'' =
        [backslash, backslash] @ ''10.0.0.1'' @ [backslash] @ ''Memory'' @ [backslash] @ ''Foo''"
proof -
  have ex: "fullCounterName ''10.0.0.1'' ''Memory'' ''Foo'' =
        [backslash, backslash] @ ''10.0.0.1'' @ [backslash] @ ''Memory'' @ [backslash] @ ''Foo''"
    by code_simp
  show ?thesis
    using isFullQualified_pattern[of c] ex by (simp add: fullCounterName_def)
qed

theorem fullCounterName_passes_or_synthesizes_witness:
  "fullCounterName ''10.0.0.2'' ''Processor''
      ([backslash, backslash] @ ''10.0.0.1'' @ [backslash] @ ''Memory'' @ [backslash] @ ''Foo'')
     = [backslash, backslash] @ ''10.0.0.1'' @ [backslash] @ ''Memory'' @ [backslash] @ ''Foo''
   \<and> fullCounterName ''10.0.0.2'' ''Cisco CallManager'' ''CallsActive''
     = [backslash, backslash] @ ''10.0.0.2'' @ [backslash] @ ''Cisco CallManager'' @ [backslash]
         @ ''CallsActive''"
proof -
  have q: "isFullQualified
             ([backslash, backslash] @ ''10.0.0.1'' @ [backslash] @ ''Memory'' @ [backslash] @ ''Foo'')"
    by code_simp
  have n: "\<not> isFullQualified ''CallsActive''" by code_simp
  show ?thesis
    using fullCounterName_passes_or_synthesizes[of
        "[backslash, backslash] @ ''10.0.0.1'' @ [backslash] @ ''Memory'' @ [backslash] @ ''Foo''"
        "''10.0.0.2''" "''Processor''"]
      fullCounterName_passes_or_synthesizes[of "''CallsActive''" "''10.0.0.2''"
        "''Cisco CallManager''"] q n
    by blast
qed

text \<open>
  C8 (no counter requested). With an empty counter name no range is evaluated and the run
  ends with status 0. In version 0.8 \<open>queryHost\<close> returns without printing a line of
  its own (the statement has no \<open>else\<close> branch): what it has written to standard output
  are messages of the logger only, and nothing when the probe is quiet; so does \<open>main\<close>
  for a single node. In version 0.3 \<open>main\<close> prints one line per sample of the snapshot,
  in the order of the snapshot, of the form \<open>Name: <name><spaces>Value: <value>\<close>, where
  the spaces pad every name to the length of the longest name plus three, so that the values
  start in the same column. Neither version sorts the samples.
\<close>

theorem empty_counter_name_prints_no_sorted_listing:
  "(\<not> showCounters fl \<and> probeSnapshot e fl ip node obj w = Some ce \<longrightarrow>
      fst (queryHost e fl multi ip node obj [] oi w) = Returned
      \<and> loggerOnly fl w (snd (queryHost e fl multi ip node obj [] oi w))
      \<and> printed (stdout (snd (queryHost e fl multi ip node obj [] oi w))) = printed (stdout w)
      \<and> (quietProbe e fl node obj ce w \<longrightarrow>
            stdout (snd (queryHost e fl multi ip node obj [] oi w)) = stdout w))
   \<and> (logFileOK e \<and> \<not> showVersion fl \<and> length (Split (nodesIpAddrs fl) CHR '','') \<le> 1
      \<and> \<not> showCounters fl \<and> counterName fl = []
      \<and> probeSnapshot e fl (ipAddr fl) (nodeIpAddr fl)
            (takeWhile (\<lambda>c. c \<noteq> CHR ''('') (objectInstance fl)) w = Some ce
      \<longrightarrow> exitStatus (fst (main e fl w)) = 0
          \<and> loggerOnly fl w (snd (main e fl w))
          \<and> printed (stdout (snd (main e fl w))) = printed (stdout w)
          \<and> (quietProbe e fl (nodeIpAddr fl)
                (takeWhile (\<lambda>c. c \<noteq> CHR ''('') (objectInstance fl)) ce w \<longrightarrow>
                stdout (snd (main e fl w)) = stdout w))
   \<and> (counterName fl = [] \<longrightarrow>
        main03_report e fl (Some ce) w =
          (Returned, w\<lparr>stdout := stdout w @ map Printed (listSnapshot ce)\<rparr>)
        \<and> exitStatus (fst (main03_report e fl (Some ce) w)) = 0)
   \<and> length (listSnapshot ce) = length ce
   \<and> (\<forall>i. i < length ce \<longrightarrow>
        (\<exists>pad. listSnapshot ce ! i =
                 ''Name: '' @ Name (ce ! i) @ pad @ ''Value: '' @ Value (ce ! i)
               \<and> set pad \<subseteq> {CHR '' ''}
               \<and> length (''Name: '' @ Name (ce ! i) @ pad) =
                   9 + Max (insert 0 ((\<lambda>v. length (Name v)) ` set ce))))"
proof -
  have q: "fst (queryHost e fl multi ip node obj [] oi w) = Returned
      \<and> loggerOnly fl w (snd (queryHost e fl multi ip node obj [] oi w))
      \<and> printed (stdout (snd (queryHost e fl multi ip node obj [] oi w))) = printed (stdout w)
      \<and> (quietProbe e fl node obj ce w \<longrightarrow>
            stdout (snd (queryHost e fl multi ip node obj [] oi w)) = stdout w)"
    if h: "\<not> showCounters fl" "probeSnapshot e fl ip node obj w = Some ce"
    for multi ip node obj oi w
  proof -
    from queryHost_lookup[OF h] obtain w' where
      w': "queryHost e fl multi ip node obj [] oi w = counterLookup e fl multi node [] oi ce w'"
      "loggerOnly fl w w'" by blast
    have a: "fst (queryHost e fl multi ip node obj [] oi w) = Returned"
      using w'(1) by (simp add: counterLookup_no_counter)
    have b: "loggerOnly fl w (snd (queryHost e fl multi ip node obj [] oi w))"
      using w' by (simp add: counterLookup_no_counter)
    have d: "stdout (snd (queryHost e fl multi ip node obj [] oi w)) = stdout w"
      if qp: "quietProbe e fl node obj ce w"
    proof -
      from queryHost_quiet[OF h qp] obtain w2 where
        "queryHost e fl multi ip node obj [] oi w = counterLookup e fl multi node [] oi ce w2"
        "stdout w2 = stdout w" by blast
      then show ?thesis by (simp add: counterLookup_no_counter)
    qed
    show ?thesis using a b loggerOnly_printed[OF b] d by blast
  qed
  have m: "exitStatus (fst (main e fl w)) = 0
          \<and> loggerOnly fl w (snd (main e fl w))
          \<and> printed (stdout (snd (main e fl w))) = printed (stdout w)
          \<and> (quietProbe e fl (nodeIpAddr fl)
                (takeWhile (\<lambda>c. c \<noteq> CHR ''('') (objectInstance fl)) ce w \<longrightarrow>
                stdout (snd (main e fl w)) = stdout w)"
    if h: "logFileOK e" "\<not> showVersion fl" "length (Split (nodesIpAddrs fl) CHR '','') \<le> 1"
      "\<not> showCounters fl" "counterName fl = []"
      "probeSnapshot e fl (ipAddr fl) (nodeIpAddr fl)
            (takeWhile (\<lambda>c. c \<noteq> CHR ''('') (objectInstance fl)) w = Some ce"
  proof -
    let ?obj = "takeWhile (\<lambda>c. c \<noteq> CHR ''('') (objectInstance fl)"
    from main_single[OF h(1,2,3), of w] obtain w' where
      w': "main e fl w =
               queryHost e fl False (ipAddr fl) (nodeIpAddr fl) ?obj (counterName fl)
                 (objectInstance fl) w'"
      "loggerOnly fl w w'" "debug fl < 3 \<longrightarrow> stdout w' = stdout w"
      "files w' = files w" "now w' = now w" by blast
    have p: "probeSnapshot e fl (ipAddr fl) (nodeIpAddr fl) ?obj w' = Some ce"
      using probeSnapshot_cong[OF w'(4,5)] h(6) by simp
    note q' = q[OF h(4) p, of False "objectInstance fl"]
    have m1: "main e fl w =
               queryHost e fl False (ipAddr fl) (nodeIpAddr fl) ?obj [] (objectInstance fl) w'"
      using w'(1) h(5) by simp
    have a: "exitStatus (fst (main e fl w)) = 0" using q' m1 by simp
    have b: "loggerOnly fl w (snd (main e fl w))"
      using loggerOnly_trans[OF w'(2)] q' m1 by simp
    have d: "stdout (snd (main e fl w)) = stdout w"
      if qp: "quietProbe e fl (nodeIpAddr fl) ?obj ce w"
    proof -
      have "quietProbe e fl (nodeIpAddr fl) ?obj ce w'"
        using quietProbe_cong[OF w'(4,5)] qp by simp
      moreover have "stdout w' = stdout w" using qp w'(3) by (simp add: quietProbe_def)
      ultimately show ?thesis using q' m1 by simp
    qed
    show ?thesis using a b loggerOnly_printed[OF b] d by blast
  qed
  have r: "main03_report e fl (Some ce) w =
             (Returned, w\<lparr>stdout := stdout w @ map Printed (listSnapshot ce)\<rparr>)
        \<and> exitStatus (fst (main03_report e fl (Some ce) w)) = 0"
    if "counterName fl = []"
    using that by (simp add: main03_report_def)
  show ?thesis
    using q m r listSnapshot_lines(1)[of ce] listSnapshot_lines(2)[of _ ce] by blast
qed

theorem empty_counter_name_prints_no_sorted_listing_witness:
  "main03_report sampleEnv (sampleFlags\<lparr>counterName := []\<rparr>) (Some unsortedSnapshot) sampleWorld =
     (Returned,
      sampleWorld\<lparr>stdout := [Printed ''Name: b     Value: 2'', Printed ''Name: aaa   Value: 1'']\<rparr>)
   \<and> fst (queryHost sampleEnv (sampleFlags\<lparr>counterName := []\<rparr>) False ''10.0.0.10'' ''10.0.0.1''
            ''Memory'' [] ''Memory'' sampleWorld) = Returned
   \<and> stdout (snd (queryHost sampleEnv (sampleFlags\<lparr>counterName := []\<rparr>) False ''10.0.0.10''
            ''10.0.0.1'' ''Memory'' [] ''Memory'' sampleWorld)) = []
   \<and> (\<exists>pad. listSnapshot unsortedSnapshot ! 0 = ''Name: b'' @ pad @ ''Value: 2''
            \<and> length (''Name: b'' @ pad) = 12)"
proof -
  let ?fl = "sampleFlags\<lparr>counterName := []\<rparr>"
  note t = empty_counter_name_prints_no_sorted_listing[of ?fl sampleEnv "''10.0.0.10''"
      "''10.0.0.1''" "''Memory''" sampleWorld "sampleSnapshot ''10.0.0.1'' ''512''" False
      "''Memory''"]
  note u = empty_counter_name_prints_no_sorted_listing[of ?fl sampleEnv "''10.0.0.10''"
      "''10.0.0.1''" "''Memory''" sampleWorld unsortedSnapshot False "''Memory''"]
  have h1: "\<not> showCounters ?fl" "counterName ?fl = []" by (simp_all add: sampleFlags_def)
  have h2: "probeSnapshot sampleEnv ?fl ''10.0.0.10'' ''10.0.0.1'' ''Memory'' sampleWorld =
              Some (sampleSnapshot ''10.0.0.1'' ''512'')" by code_simp
  have h3: "quietProbe sampleEnv ?fl ''10.0.0.1'' ''Memory'' (sampleSnapshot ''10.0.0.1'' ''512'')
              sampleWorld" by code_simp
  have l: "listSnapshot unsortedSnapshot = [''Name: b     Value: 2'', ''Name: aaa   Value: 1'']"
    by code_simp
  have s: "stdout sampleWorld = []" by (simp add: sampleWorld_def)
  have mx: "Max (insert 0 ((\<lambda>v. length (Name v)) ` set unsortedSnapshot)) = 3"
    by (simp add: unsortedSnapshot_def)
  have a: "main03_report sampleEnv ?fl (Some unsortedSnapshot) sampleWorld =
     (Returned,
      sampleWorld\<lparr>stdout := [Printed ''Name: b     Value: 2'', Printed ''Name: aaa   Value: 1'']\<rparr>)"
    using u h1 l s by simp
  have b: "fst (queryHost sampleEnv ?fl False ''10.0.0.10'' ''10.0.0.1''
            ''Memory'' [] ''Memory'' sampleWorld) = Returned"
    using t h1 h2 by blast
  have b': "stdout (snd (queryHost sampleEnv ?fl False ''10.0.0.10'' ''10.0.0.1''
            ''Memory'' [] ''Memory'' sampleWorld)) = []"
    using t h1 h2 h3 s by simp
  have "0 < length unsortedSnapshot" by (simp add: unsortedSnapshot_def)
  with u obtain pad where
    "listSnapshot unsortedSnapshot ! 0 =
       ''Name: '' @ Name (unsortedSnapshot ! 0) @ pad @ ''Value: '' @ Value (unsortedSnapshot ! 0)"
    "length (''Name: '' @ Name (unsortedSnapshot ! 0) @ pad) =
       9 + Max (insert 0 ((\<lambda>v. length (Name v)) ` set unsortedSnapshot))"
    by blast
  then have c: "\<exists>pad. listSnapshot unsortedSnapshot ! 0 = ''Name: b'' @ pad @ ''Value: 2''
            \<and> length (''Name: b'' @ pad) = 12"
    unfolding mx by (intro exI[of _ pad]) (simp add: unsortedSnapshot_def)
  show ?thesis using a b b' c by blast
qed

text \<open>The claim as it was stated fails in both versions. Version 0.8 prints no line for
  a snapshot that holds a sample: standard output stays empty, and when the cache file
  cannot be written the only write is the error message of the logger. Version 0.3 prints
  the sample named \<open>b\<close> before the sample named \<open>aaa\<close>.\<close>

theorem empty_counter_name_counterexample:
  "probeSnapshot sampleEnv (sampleFlags\<lparr>counterName := []\<rparr>) ''10.0.0.10'' ''10.0.0.1''
      ''Memory'' sampleWorld = Some (sampleSnapshot ''10.0.0.1'' ''512'')
   \<and> stdout (snd (main sampleEnv (sampleFlags\<lparr>counterName := []\<rparr>) sampleWorld)) = []
   \<and> stdout (snd (main (sampleEnv\<lparr>writeFileOK := (\<lambda>_. False)\<rparr>)
                     (sampleFlags\<lparr>counterName := []\<rparr>) sampleWorld)) = [Logged ''error: %s'']
   \<and> stdout (snd (main03_report sampleEnv (sampleFlags\<lparr>counterName := []\<rparr>)
                     (Some unsortedSnapshot) sampleWorld)) =
        [Printed ''Name: b     Value: 2'', Printed ''Name: aaa   Value: 1'']
   \<and> \<not> sorted (map Name unsortedSnapshot)"
  by code_simp
text \<open>
  C9 (the status line). When the probe is not in list mode and the snapshot holds a sample
  with the full counter name whose value \<open>ParseFloat\<close> accepts, \<open>queryHost\<close> leaves
  the process with the code of \<open>getNagiosReturnVal\<close> and its last write to standard
  output is one printed line: the status word, \<open> - \<close>, the prefix, the object instance,
  the counter name as given, the value text, and after \<open>|\<close> the counter name and value
  again followed by the warning and critical range strings, with the separators of the
  format. What it wrote before that line are messages of the logger only, and nothing when
  the probe is quiet. Every field has been passed byte by byte through \<open>sanitize\<close>:
  \<open>%\<close> becomes \<open>Percent\<close>, a backslash becomes two, the five HTML-special bytes
  become their entities, and no \<open>%\<close>, \<open><\<close>, \<open>>\<close> or quote is left.
\<close>

theorem status_line_format:
  "(\<not> showCounters fl \<and> probeSnapshot e fl ip node obj w = Some ce \<and> cn \<noteq> []
      \<and> find (\<lambda>v. Name v = fullCounterName node oi cn) ce = Some v
      \<and> strconvParseFloat e (Value v) = (val, False)
    \<longrightarrow> (\<exists>r. getNagiosReturnVal (strconvParseFloat e) val (warningThreshold fl)
                (criticalThreshold fl) = Some r
             \<and> fst (queryHost e fl multi ip node obj cn oi w) = Exited r
             \<and> (\<exists>w1. loggerOnly fl w w1 \<and>
                   stdout (snd (queryHost e fl multi ip node obj cn oi w)) =
                   stdout w1 @
                   [Printed (returnValText r @ '' - '' @ outputPrefix @ '','' @ sanitize oi @ '',''
                    @ sanitize cn @ ''='' @ sanitize (Value v) @ ''|'' @ sanitize cn @ ''=''
                    @ sanitize (Value v) @ '';'' @ sanitize (warningThreshold fl) @ '';''
                    @ sanitize (criticalThreshold fl) @ '';;'')])
             \<and> (quietProbe e fl node obj ce w \<longrightarrow>
                   stdout (snd (queryHost e fl multi ip node obj cn oi w)) =
                   stdout w @
                   [Printed (returnValText r @ '' - '' @ outputPrefix @ '','' @ sanitize oi @ '',''
                    @ sanitize cn @ ''='' @ sanitize (Value v) @ ''|'' @ sanitize cn @ ''=''
                    @ sanitize (Value v) @ '';'' @ sanitize (warningThreshold fl) @ '';''
                    @ sanitize (criticalThreshold fl) @ '';;'')])))
   \<and> sanitize (s @ t) = sanitize s @ sanitize t
   \<and> sanitize ''%'' = ''Percent''
   \<and> sanitize [backslash] = [backslash, backslash]
   \<and> sanitize ''<>&'' = ''&lt;&gt;&amp;''
   \<and> sanitize [CHR 0x22, CHR 0x27] = ''&#34;&#39;''
   \<and> set (sanitize s) \<inter> {CHR ''%'', CHR ''<'', CHR ''>'', CHR 0x22, CHR 0x27} = {}"
proof -
  have run: "(\<exists>r. getNagiosReturnVal (strconvParseFloat e) val (warningThreshold fl)
                (criticalThreshold fl) = Some r
             \<and> fst (queryHost e fl multi ip node obj cn oi w) = Exited r
             \<and> (\<exists>w1. loggerOnly fl w w1 \<and>
                   stdout (snd (queryHost e fl multi ip node obj cn oi w)) =
                   stdout w1 @
                   [Printed (returnValText r @ '' - '' @ outputPrefix @ '','' @ sanitize oi @ '',''
                    @ sanitize cn @ ''='' @ sanitize (Value v) @ ''|'' @ sanitize cn @ ''=''
                    @ sanitize (Value v) @ '';'' @ sanitize (warningThreshold fl) @ '';''
                    @ sanitize (criticalThreshold fl) @ '';;'')])
             \<and> (quietProbe e fl node obj ce w \<longrightarrow>
                   stdout (snd (queryHost e fl multi ip node obj cn oi w)) =
                   stdout w @
                   [Printed (returnValText r @ '' - '' @ outputPrefix @ '','' @ sanitize oi @ '',''
                    @ sanitize cn @ ''='' @ sanitize (Value v) @ ''|'' @ sanitize cn @ ''=''
                    @ sanitize (Value v) @ '';'' @ sanitize (warningThreshold fl) @ '';''
                    @ sanitize (criticalThreshold fl) @ '';;'')]))"
    if h: "\<not> showCounters fl" "probeSnapshot e fl ip node obj w = Some ce" "cn \<noteq> []"
      "find (\<lambda>v. Name v = fullCounterName node oi cn) ce = Some v"
      "strconvParseFloat e (Value v) = (val, False)"
  proof -
    obtain r where r: "getNagiosReturnVal (strconvParseFloat e) val (warningThreshold fl)
                (criticalThreshold fl) = Some r"
      using getNagiosReturnVal_total by blast
    note c = counterLookup_found[OF h(3,4,5) r, where multi=multi]
    from queryHost_lookup[OF h(1,2)] obtain w' where
      w': "queryHost e fl multi ip node obj cn oi w = counterLookup e fl multi node cn oi ce w'"
      "loggerOnly fl w w'" by blast
    from c(2)[of w'] obtain w1 where
      w1: "loggerOnly fl w' w1"
      "stdout (snd (counterLookup e fl multi node cn oi ce w')) =
         stdout w1 @ [Printed (nagiosOutput fl (returnValText r) oi cn (Value v))]"
      by auto
    have a: "fst (queryHost e fl multi ip node obj cn oi w) = Exited r"
      using c(1)[of w'] w'(1) by simp
    have b: "\<exists>w1. loggerOnly fl w w1 \<and>
               stdout (snd (queryHost e fl multi ip node obj cn oi w)) =
               stdout w1 @ [Printed (nagiosOutput fl (returnValText r) oi cn (Value v))]"
      using loggerOnly_trans[OF w'(2) w1(1)] w1(2) w'(1) by auto
    have d: "stdout (snd (queryHost e fl multi ip node obj cn oi w)) =
               stdout w @ [Printed (nagiosOutput fl (returnValText r) oi cn (Value v))]"
      if qp: "quietProbe e fl node obj ce w"
    proof -
      from queryHost_quiet[OF h(1,2) qp] obtain w2 where
        w2: "queryHost e fl multi ip node obj cn oi w = counterLookup e fl multi node cn oi ce w2"
        "stdout w2 = stdout w" by blast
      have "debug fl < 3" using qp by (simp add: quietProbe_def)
      then show ?thesis using c(3)[of w2] w2 by simp
    qed
    show ?thesis
      using r a b d unfolding nagiosOutput_form by blast
  qed
  have chars: "sanitize ''%'' = ''Percent''" "sanitize [backslash] = [backslash, backslash]"
    "sanitize ''<>&'' = ''&lt;&gt;&amp;''" "sanitize [CHR 0x22, CHR 0x27] = ''&#34;&#39;''"
    by (simp_all add: sanitize_def sanitizeChar_def escapeChar_def backslash_def)
  show ?thesis
    using run sanitize_append[of s t] chars sanitize_no_special[of s] by blast
qed

theorem status_line_format_witness:
  "fst (queryHost sampleEnv sampleFlags False ''10.0.0.10'' ''10.0.0.1'' ''Memory''
          ([backslash, backslash] @ ''10.0.0.1'' @ [backslash] @ ''Memory'' @ [backslash]
             @ ''UsedMB'') ''Memory'' sampleWorld) = Exited 0
   \<and> stdout (snd (queryHost sampleEnv sampleFlags False ''10.0.0.10'' ''10.0.0.1'' ''Memory''
          ([backslash, backslash] @ ''10.0.0.1'' @ [backslash] @ ''Memory'' @ [backslash]
             @ ''UsedMB'') ''Memory'' sampleWorld)) =
       [Printed (''OK - UC Perfmon,Memory,'' @ [backslash, backslash, backslash, backslash]
          @ ''10.0.0.1'' @ [backslash, backslash] @ ''Memory'' @ [backslash, backslash]
          @ ''UsedMB=512|'' @ [backslash, backslash, backslash, backslash] @ ''10.0.0.1''
          @ [backslash, backslash] @ ''Memory'' @ [backslash, backslash]
          @ ''UsedMB=512;600;800;;'')]"
proof -
  let ?cn = "[backslash, backslash] @ ''10.0.0.1'' @ [backslash] @ ''Memory'' @ [backslash]
             @ ''UsedMB''"
  let ?ce = "sampleSnapshot ''10.0.0.1'' ''512''"
  let ?v = "\<lparr>Name = ?cn, Value = ''512'', CStatus = ''0''\<rparr>"
  have h1: "\<not> showCounters sampleFlags" by (simp add: sampleFlags_def)
  have h2: "probeSnapshot sampleEnv sampleFlags ''10.0.0.10'' ''10.0.0.1'' ''Memory'' sampleWorld
              = Some ?ce" by code_simp
  have h3: "?cn \<noteq> []" by simp
  have h4: "find (\<lambda>v. Name v = fullCounterName ''10.0.0.1'' ''Memory'' ?cn) ?ce = Some ?v"
    by code_simp
  have h5: "strconvParseFloat sampleEnv (Value ?v) = (Fin 512, False)" by code_simp
  have r0: "getNagiosReturnVal (strconvParseFloat sampleEnv) (Fin 512)
              (warningThreshold sampleFlags) (criticalThreshold sampleFlags) = Some 0"
    by code_simp
  have s1: "sanitize ''Memory'' = ''Memory''" "sanitize ''512'' = ''512''"
    "sanitize ''600'' = ''600''" "sanitize ''800'' = ''800''"
    "sanitize ?cn = [backslash, backslash, backslash, backslash] @ ''10.0.0.1''
          @ [backslash, backslash] @ ''Memory'' @ [backslash, backslash] @ ''UsedMB''"
    by code_simp+
  have fl: "warningThreshold sampleFlags = ''600''" "criticalThreshold sampleFlags = ''800''"
    by (simp_all add: sampleFlags_def)
  have w0: "stdout sampleWorld = []" by (simp add: sampleWorld_def)
  have h6: "quietProbe sampleEnv sampleFlags ''10.0.0.1'' ''Memory'' ?ce sampleWorld"
    by code_simp
  from status_line_format[of sampleFlags sampleEnv "''10.0.0.10''" "''10.0.0.1''" "''Memory''"
      sampleWorld ?ce ?cn "''Memory''" ?v "Fin 512" False] h1 h2 h3 h4 h5 h6
  obtain r where r: "getNagiosReturnVal (strconvParseFloat sampleEnv) (Fin 512)
                (warningThreshold sampleFlags) (criticalThreshold sampleFlags) = Some r"
    and q: "fst (queryHost sampleEnv sampleFlags False ''10.0.0.10'' ''10.0.0.1'' ''Memory'' ?cn
                   ''Memory'' sampleWorld) = Exited r"
    and o: "stdout (snd (queryHost sampleEnv sampleFlags False ''10.0.0.10'' ''10.0.0.1''
                   ''Memory'' ?cn ''Memory'' sampleWorld)) =
                 stdout sampleWorld @
                 [Printed (returnValText r @ '' - '' @ outputPrefix @ '','' @ sanitize ''Memory''
                  @ '','' @ sanitize ?cn @ ''='' @ sanitize (Value ?v) @ ''|'' @ sanitize ?cn
                  @ ''='' @ sanitize (Value ?v) @ '';'' @ sanitize (warningThreshold sampleFlags)
                  @ '';'' @ sanitize (criticalThreshold sampleFlags) @ '';;'')]"
    by blast
  have "r = 0" using r r0 by simp
  then show ?thesis
    using q o by (simp add: s1[simplified] fl w0 returnValText_def outputPrefix_def)
qed

text \<open>
  C10 (the cache key is not injective). For every user, node and two object names that
  differ only by spaces versus underscores, \<open>saveStruct\<close> and \<open>loadStruct\<close> build the
  same file name, a save under one name is the save under the other, a load under one name
  is the load under the other, and a load under the second name returns what was saved
  under the first. \<open>Cisco CallManager\<close> and \<open>Cisco_CallManager\<close> are such a pair of
  different names.
\<close>

theorem cache_key_not_injective:
  "(sameUpToSpaces object1 object2 \<longrightarrow>
      saveStruct_filename e fl node object1 = loadStruct_filename e fl node object2
      \<and> saveStruct e fl node object1 ce w = saveStruct e fl node object2 ce w
      \<and> loadStruct e fl node object1 age w = loadStruct e fl node object2 age w
      \<and> (saveStruct e fl node object1 ce w = (True, w')
           \<and> (\<forall>j. jsonMarshal e ce = Some j \<longrightarrow> jsonUnmarshal e j = Some ce)
           \<and> (\<forall>old. files w (saveStruct_filename e fl node object1) = Some old \<longrightarrow> readable old)
           \<and> t - now w \<le> age
         \<longrightarrow> fst (loadStruct e fl node object2 age (w'\<lparr>now := t\<rparr>)) = Some ce))
   \<and> sameUpToSpaces ''Cisco CallManager'' ''Cisco_CallManager''
   \<and> ''Cisco CallManager'' \<noteq> ''Cisco_CallManager''"
proof -
  have ex: "sameUpToSpaces ''Cisco CallManager'' ''Cisco_CallManager''"
    by (simp add: sameUpToSpaces_def spaceOrUnderscore_def)
  have ne: "''Cisco CallManager'' \<noteq> ''Cisco_CallManager''" by simp
  have main: "saveStruct_filename e fl node object1 = loadStruct_filename e fl node object2
      \<and> saveStruct e fl node object1 ce w = saveStruct e fl node object2 ce w
      \<and> loadStruct e fl node object1 age w = loadStruct e fl node object2 age w
      \<and> (saveStruct e fl node object1 ce w = (True, w')
           \<and> (\<forall>j. jsonMarshal e ce = Some j \<longrightarrow> jsonUnmarshal e j = Some ce)
           \<and> (\<forall>old. files w (saveStruct_filename e fl node object1) = Some old \<longrightarrow> readable old)
           \<and> t - now w \<le> age
         \<longrightarrow> fst (loadStruct e fl node object2 age (w'\<lparr>now := t\<rparr>)) = Some ce)"
    if s: "sameUpToSpaces object1 object2"
  proof -
    have r: "Replace object1 CHR '' '' ''_'' = Replace object2 CHR '' '' ''_''"
      by (rule Replace_sameUpToSpaces[OF s])
    have fs: "saveStruct_filename e fl node object1 = saveStruct_filename e fl node object2"
      by (simp add: saveStruct_filename_def r)
    have fl: "loadStruct_filename e fl node object1 = loadStruct_filename e fl node object2"
      by (simp add: loadStruct_filename_def r)
    have a: "saveStruct_filename e fl node object1 = loadStruct_filename e fl node object2"
      using fs filename_same by simp
    have b: "saveStruct e fl node object1 ce w = saveStruct e fl node object2 ce w"
      unfolding saveStruct_def fs by (rule refl)
    have c: "loadStruct e fl node object1 age' w'' = loadStruct e fl node object2 age' w''"
      for age' w''
      unfolding loadStruct_def fl by (rule refl)
    have d: "fst (loadStruct e fl node object2 age (w'\<lparr>now := t\<rparr>)) = Some ce"
      if "saveStruct e fl node object1 ce w = (True, w')"
        "\<forall>j. jsonMarshal e ce = Some j \<longrightarrow> jsonUnmarshal e j = Some ce"
        "\<forall>old. files w (saveStruct_filename e fl node object1) = Some old \<longrightarrow> readable old"
        "t - now w \<le> age"
      using load_after_save[OF that] c by simp
    show ?thesis using a b c d by blast
  qed
  show ?thesis using main ex ne by blast
qed

theorem cache_key_not_injective_witness:
  "saveStruct_filename sampleEnv sampleFlags ''10.0.0.1'' ''Cisco CallManager''
     = loadStruct_filename sampleEnv sampleFlags ''10.0.0.1'' ''Cisco_CallManager''
   \<and> fst (loadStruct sampleEnv sampleFlags ''10.0.0.1'' ''Cisco_CallManager'' 180
           ((snd (saveStruct sampleEnv sampleFlags ''10.0.0.1'' ''Cisco CallManager''
                    (sampleSnapshot ''10.0.0.1'' ''512'') sampleWorld))\<lparr>now := 1700000060\<rparr>))
       = Some (sampleSnapshot ''10.0.0.1'' ''512'')"
proof -
  let ?ce = "sampleSnapshot ''10.0.0.1'' ''512''"
  let ?W = "snd (saveStruct sampleEnv sampleFlags ''10.0.0.1'' ''Cisco CallManager'' ?ce sampleWorld)"
  have ok: "fst (saveStruct sampleEnv sampleFlags ''10.0.0.1'' ''Cisco CallManager'' ?ce sampleWorld)"
    by code_simp
  have save: "saveStruct sampleEnv sampleFlags ''10.0.0.1'' ''Cisco CallManager'' ?ce sampleWorld
                = (True, ?W)"
    using ok by (simp add: prod_eq_iff)
  have rt: "\<forall>j. jsonMarshal sampleEnv ?ce = Some j \<longrightarrow> jsonUnmarshal sampleEnv j = Some ?ce"
    using sample_roundtrip by (auto simp: sampleEnv_def)
  have rd: "\<forall>old. files sampleWorld
                    (saveStruct_filename sampleEnv sampleFlags ''10.0.0.1'' ''Cisco CallManager'')
              = Some old \<longrightarrow> readable old"
    by (simp add: sampleWorld_def)
  have age: "1700000060 - now sampleWorld \<le> 180" by (simp add: sampleWorld_def)
  note t = cache_key_not_injective[of "''Cisco CallManager''" "''Cisco_CallManager''" sampleEnv
        sampleFlags "''10.0.0.1''" ?ce sampleWorld 180 ?W 1700000060]
  have s: "sameUpToSpaces ''Cisco CallManager'' ''Cisco_CallManager''"
    using t by blast
  show ?thesis
    using t s save rt rd age by blast
qed

end
